theory Spec2Isabelle
  imports Main "HOL-Library.Word"
begin

unbundle bit_operations_syntax

section \<open>Integer types, result codes and constants\<close>

text \<open>
  The integer types of the module: \<^verbatim>\<open>BYTE\<close> is 8 bits, \<^verbatim>\<open>WORD\<close> and \<^verbatim>\<open>WCHAR\<close> are
  16 bits, \<^verbatim>\<open>DWORD\<close> and \<^verbatim>\<open>UINT\<close> are 32 bits. The volume is a FAT volume, so
  \<^verbatim>\<open>FSIZE_t\<close> is a \<^verbatim>\<open>DWORD\<close>; sector addresses (\<^verbatim>\<open>LBA_t\<close>) are taken as 32 bits.
  All arithmetic on them wraps around, as in C.

  Configuration that is modelled: read/write (\<^verbatim>\<open>FF_FS_READONLY == 0\<close>), file objects
  with a private sector buffer (\<^verbatim>\<open>FF_FS_TINY == 0\<close>), long file names, the open-file
  registry (\<^verbatim>\<open>FF_FS_LOCK\<close> entries, the length of the table), fast seek compiled in,
  variable sector size (\<^verbatim>\<open>SS(fs)\<close> is \<^verbatim>\<open>fs->ssize\<close>), no virtual partitions, and
  the build in which \<^verbatim>\<open>__LITEOS_M__\<close> is not defined.
\<close>

type_synonym BYTE = "8 word"
type_synonym WORD = "16 word"
type_synonym DWORD = "32 word"
type_synonym UINT = "32 word"
type_synonym LBA_t = "32 word"
type_synonym FSIZE_t = "32 word"

text \<open>The result enumeration \<^verbatim>\<open>FRESULT\<close> (declared in the header).\<close>

datatype FRESULT =
    FR_OK | FR_DISK_ERR | FR_INT_ERR | FR_NOT_READY | FR_NO_FILE | FR_NO_PATH
  | FR_INVALID_NAME | FR_DENIED | FR_EXIST | FR_INVALID_OBJECT | FR_WRITE_PROTECTED
  | FR_INVALID_DRIVE | FR_NOT_ENABLED | FR_NO_FILESYSTEM | FR_MKFS_ABORTED | FR_TIMEOUT
  | FR_LOCKED | FR_NOT_ENOUGH_CORE | FR_TOO_MANY_OPEN_FILES | FR_INVALID_PARAMETER
  | FR_NO_SPACE_LEFT | FR_NO_EPERM | FR_IS_DIR | FR_NO_DIR | FR_NO_EMPTY_DIR

text \<open>
  Access mode flags, attribute bits and sub-type codes. \<^verbatim>\<open>FA_SEEKEND\<close>,
  \<^verbatim>\<open>FA_MODIFIED\<close> and \<^verbatim>\<open>FA_DIRTY\<close> are defined in the source; the others come from
  the header of revision 5380, which the source insists on (\<^verbatim>\<open>FF_DEFINED\<close>).
\<close>

definition FA_READ :: BYTE where "FA_READ = 0x01"
definition FA_WRITE :: BYTE where "FA_WRITE = 0x02"
definition FA_CREATE_NEW :: BYTE where "FA_CREATE_NEW = 0x04"
definition FA_CREATE_ALWAYS :: BYTE where "FA_CREATE_ALWAYS = 0x08"
definition FA_OPEN_ALWAYS :: BYTE where "FA_OPEN_ALWAYS = 0x10"
definition FA_OPEN_APPEND :: BYTE where "FA_OPEN_APPEND = 0x30"
definition FA_SEEKEND :: BYTE where "FA_SEEKEND = 0x20"
definition FA_MODIFIED :: BYTE where "FA_MODIFIED = 0x40"
definition FA_DIRTY :: BYTE where "FA_DIRTY = 0x80"

definition AM_RDO :: BYTE where "AM_RDO = 0x01"
definition AM_DIR :: BYTE where "AM_DIR = 0x10"
definition AM_ARC :: BYTE where "AM_ARC = 0x20"

definition FS_FAT12 :: BYTE where "FS_FAT12 = 1"
definition FS_FAT16 :: BYTE where "FS_FAT16 = 2"
definition FS_FAT32 :: BYTE where "FS_FAT32 = 3"


section \<open>Object identity, directory objects\<close>

text \<open>
  \<^verbatim>\<open>FFOBJID\<close> is the first member of every file and directory object. The pointer
  \<^verbatim>\<open>fs\<close> (here \<open>obj_fs\<close>) to the owning volume is an address, \<open>0\<close> for the null pointer. A directory
  object carries, of the fields the functions below read, the offset \<^verbatim>\<open>dptr\<close> of the
  current entry and the name \<^verbatim>\<open>fn[12]\<close> in directory form with its status byte.
\<close>

record FFOBJID =
  obj_fs :: nat
  obj_id :: WORD
  attr :: BYTE
  sclust :: DWORD
  objsize :: FSIZE_t
  lockid :: UINT

record handle =
  obj :: FFOBJID

record DIR = handle +
  dptr :: DWORD
  fn :: "BYTE list"


section \<open>Open-file registry\<close>

text \<open>
  \<^verbatim>\<open>FILESEM\<close>: the volume (\<open>0\<close> marks a blank entry), the containing directory, the
  offset in it, and the open counter. The table \<^verbatim>\<open>Files[FF_FS_LOCK]\<close> is a list.
\<close>

record FILESEM =
  sem_fs :: nat
  clu :: DWORD
  ofs :: DWORD
  ctr :: UINT

text \<open>
  The search loop of \<^verbatim>\<open>chk_share\<close>: returns the index at which it stopped (the length
  of the table when the object is not there) and the flag \<^verbatim>\<open>be\<close>.
\<close>

fun chk_share_loop :: "FILESEM list \<Rightarrow> DIR \<Rightarrow> nat \<Rightarrow> bool \<Rightarrow> nat \<times> bool" where
  "chk_share_loop [] dp i be = (i, be)"
| "chk_share_loop (e # es) dp i be =
     (if sem_fs e \<noteq> 0 then
        (if sem_fs e = obj_fs (obj dp) \<and> clu e = sclust (obj dp) \<and> ofs e = dptr dp
         then (i, be)
         else chk_share_loop es dp (i + 1) be)
      else chk_share_loop es dp (i + 1) True)"

definition chk_share :: "FILESEM list \<Rightarrow> DIR \<Rightarrow> int \<Rightarrow> FRESULT" where
  "chk_share Files dp acc =
     (case chk_share_loop Files dp 0 False of (i, be) \<Rightarrow>
        if i = length Files then
          (if \<not> be \<and> acc \<noteq> 2 then FR_TOO_MANY_OPEN_FILES else FR_OK)
        else
          (if acc \<noteq> 0 \<or> ctr (Files ! i) = 0x100 then FR_LOCKED else FR_OK))"

text \<open>\<^verbatim>\<open>for (i = 0; i < FF_FS_LOCK && Files[i].fs; i++) ;\<close>\<close>

fun free_entry :: "FILESEM list \<Rightarrow> nat \<Rightarrow> nat" where
  "free_entry [] i = i"
| "free_entry (e # es) i = (if sem_fs e \<noteq> 0 then free_entry es (i + 1) else i)"

definition enq_share :: "FILESEM list \<Rightarrow> bool" where
  "enq_share Files = (free_entry Files 0 \<noteq> length Files)"

text \<open>The search loop of \<^verbatim>\<open>inc_share\<close>, which compares all three keys of every entry.\<close>

fun inc_share_loop :: "FILESEM list \<Rightarrow> DIR \<Rightarrow> nat \<Rightarrow> nat" where
  "inc_share_loop [] dp i = i"
| "inc_share_loop (e # es) dp i =
     (if sem_fs e = obj_fs (obj dp) \<and> clu e = sclust (obj dp) \<and> ofs e = dptr dp
      then i else inc_share_loop es dp (i + 1))"

text \<open>
  \<^verbatim>\<open>inc_share\<close> returns the index plus one, or 0 on an internal error, and the table.
  The table is returned as the code leaves it, also when it returns 0.
\<close>

definition inc_share :: "FILESEM list \<Rightarrow> DIR \<Rightarrow> int \<Rightarrow> UINT \<times> FILESEM list" where
  "inc_share Files dp acc =
     (let i = inc_share_loop Files dp 0;
          new = (i = length Files);
          i = (if new then free_entry Files 0 else i)
      in if new \<and> i = length Files then (0, Files)
         else
           let Files = (if new
                        then Files[i := \<lparr>sem_fs = obj_fs (obj dp), clu = sclust (obj dp),
                                         ofs = dptr dp, ctr = 0\<rparr>]
                        else Files)
           in if acc \<ge> 1 \<and> ctr (Files ! i) \<noteq> 0 then (0, Files)
              else (of_nat i + 1,
                    Files[i := (Files ! i)\<lparr>ctr := (if acc \<noteq> 0 then 0x100
                                                     else ctr (Files ! i) + 1)\<rparr>]))"

definition dec_share :: "FILESEM list \<Rightarrow> UINT \<Rightarrow> FRESULT \<times> FILESEM list" where
  "dec_share Files i =
     (let i = i - 1 in
      if unat i < length Files then
        (let n = ctr (Files ! unat i);
             n = (if n = 0x100 then 0 else n);
             n = (if n > 0 then n - 1 else n);
             Files = Files[unat i := (Files ! unat i)\<lparr>ctr := n\<rparr>];
             Files = (if n = 0 then Files[unat i := (Files ! unat i)\<lparr>sem_fs := 0\<rparr>] else Files)
         in (FR_OK, Files))
      else (FR_INT_ERR, Files))"

text \<open>
  The locking steps of \<^verbatim>\<open>f_open\<close> on an object that exists: \<^verbatim>\<open>chk_share\<close> with
  access 0 for a plain read open and 1 for any other mode, then, when every check has
  passed, \<^verbatim>\<open>inc_share\<close> with the same access.
\<close>

definition open_acc :: "BYTE \<Rightarrow> int" where
  "open_acc mode = (if mode AND NOT FA_READ \<noteq> 0 then 1 else 0)"


section \<open>Byte codec\<close>

text \<open>
  A buffer (a sector, the window, a file's cache) is a function from byte offsets to
  bytes; a pointer into it is the buffer with an offset. The loads and stores assemble
  little-endian values byte by byte, as the source does.
\<close>

type_synonym buffer = "nat \<Rightarrow> BYTE"

definition ld_word :: "buffer \<Rightarrow> nat \<Rightarrow> WORD" where
  "ld_word b p =
     (let rv = (ucast (b (p + 1)) :: WORD);
          rv = push_bit 8 rv OR ucast (b p)
      in rv)"

definition ld_dword :: "buffer \<Rightarrow> nat \<Rightarrow> DWORD" where
  "ld_dword b p =
     (let rv = (ucast (b (p + 3)) :: DWORD);
          rv = push_bit 8 rv OR ucast (b (p + 2));
          rv = push_bit 8 rv OR ucast (b (p + 1));
          rv = push_bit 8 rv OR ucast (b p)
      in rv)"

definition st_word :: "buffer \<Rightarrow> nat \<Rightarrow> WORD \<Rightarrow> buffer" where
  "st_word b p val =
     (let b = b(p := ucast val); val = drop_bit 8 val;
          b = b(p + 1 := ucast val)
      in b)"

definition st_dword :: "buffer \<Rightarrow> nat \<Rightarrow> DWORD \<Rightarrow> buffer" where
  "st_dword b p val =
     (let b = b(p := ucast val); val = drop_bit 8 val;
          b = b(p + 1 := ucast val); val = drop_bit 8 val;
          b = b(p + 2 := ucast val); val = drop_bit 8 val;
          b = b(p + 3 := ucast val)
      in b)"


section \<open>Block device and host\<close>

text \<open>
  The block device, the user-space copy routines and the clock are outside the module.
  The host state holds the medium (one buffer per sector address), the number of
  requests made so far, and which requests fail: request number \<open>k\<close> (a device
  transfer, a control request or a user-space copy) fails when \<open>faulty k\<close> holds, so
  every pattern of failures in time is covered. A failed request transfers nothing.
  There is one physical drive, so \<^verbatim>\<open>pdrv\<close> is not modelled. \<open>noinit\<close> is the
  \<^verbatim>\<open>STA_NOINIT\<close> bit of \<^verbatim>\<open>disk_status\<close> (never set in a build that does not ask for
  it), \<open>fattime\<close> what \<^verbatim>\<open>GET_FATTIME()\<close> returns, and \<open>time_status\<close> the module's global
  switch of that name.
\<close>

datatype time_mode = SYSTEM_TIME_ENABLE | SYSTEM_TIME_DISABLE | SYSTEM_TIME_OTHER

record host =
  media :: "LBA_t \<Rightarrow> buffer"
  requests :: nat
  faulty :: "nat \<Rightarrow> bool"
  noinit :: bool
  fattime :: DWORD
  time_status :: time_mode

definition disk_read :: "host \<Rightarrow> LBA_t \<Rightarrow> nat \<Rightarrow> buffer list option \<times> host" where
  "disk_read d sect count =
     (let d' = d\<lparr>requests := requests d + 1\<rparr> in
      if faulty d (requests d) then (None, d')
      else (Some (map (\<lambda>k. media d (sect + of_nat k)) [0..<count]), d'))"

definition disk_write :: "host \<Rightarrow> buffer list \<Rightarrow> LBA_t \<Rightarrow> bool \<times> host" where
  "disk_write d bufs sect =
     (let d' = d\<lparr>requests := requests d + 1\<rparr> in
      if faulty d (requests d) then (False, d')
      else (True, d'\<lparr>media := (\<lambda>s. if unat (s - sect) < length bufs
                                      then bufs ! unat (s - sect) else media d s)\<rparr>))"

text \<open>\<^verbatim>\<open>disk_ioctl(pdrv, CTRL_SYNC, 0)\<close>\<close>

definition disk_ioctl_sync :: "host \<Rightarrow> bool \<times> host" where
  "disk_ioctl_sync d = (\<not> faulty d (requests d), d\<lparr>requests := requests d + 1\<rparr>)"

text \<open>\<^verbatim>\<open>LOS_CopyFromKernel\<close> and \<^verbatim>\<open>LOS_CopyToKernel\<close>: whether the copy succeeds.\<close>

definition user_copy :: "host \<Rightarrow> bool \<times> host" where
  "user_copy d = (\<not> faulty d (requests d), d\<lparr>requests := requests d + 1\<rparr>)"


section \<open>Volume object and sector window\<close>

record FATFS =
  fs_type :: BYTE
  n_fats :: BYTE
  wflag :: BYTE
  fsi_flag :: BYTE
  fs_id :: WORD
  n_rootdir :: WORD
  csize :: WORD
  ssize :: WORD
  last_clst :: DWORD
  free_clst :: DWORD
  n_fatent :: DWORD
  fsize :: DWORD
  volbase :: LBA_t
  fatbase :: LBA_t
  dirbase :: LBA_t
  database :: LBA_t
  winsect :: LBA_t
  win :: buffer

text \<open>\<^verbatim>\<open>SS(fs)\<close>, promoted to 32 bits where it meets a \<^verbatim>\<open>DWORD\<close> or \<^verbatim>\<open>UINT\<close>.\<close>

definition SS :: "FATFS \<Rightarrow> DWORD" where
  "SS fs = ucast (ssize fs)"

definition sync_window :: "FATFS \<Rightarrow> host \<Rightarrow> FRESULT \<times> FATFS \<times> host" where
  "sync_window fs d =
     (if wflag fs \<noteq> 0 then
        (case disk_write d [win fs] (winsect fs) of
           (True, d1) \<Rightarrow>
             (let fs1 = fs\<lparr>wflag := 0\<rparr> in
              if winsect fs1 - fatbase fs1 < fsize fs1 then
                (if n_fats fs1 = 2
                 then (FR_OK, fs1, snd (disk_write d1 [win fs1] (winsect fs1 + fsize fs1)))
                 else (FR_OK, fs1, d1))
              else (FR_OK, fs1, d1))
         | (False, d1) \<Rightarrow> (FR_DISK_ERR, fs, d1))
      else (FR_OK, fs, d))"

definition move_window :: "FATFS \<Rightarrow> host \<Rightarrow> LBA_t \<Rightarrow> FRESULT \<times> FATFS \<times> host" where
  "move_window fs d sect =
     (if sect \<noteq> winsect fs then
        (case sync_window fs d of (res, fs1, d1) \<Rightarrow>
           if res = FR_OK then
             (case disk_read d1 sect 1 of
                (None, d2) \<Rightarrow> (FR_DISK_ERR, fs1\<lparr>winsect := 0 - 1\<rparr>, d2)
              | (Some bufs, d2) \<Rightarrow> (FR_OK, fs1\<lparr>win := bufs ! 0, winsect := sect\<rparr>, d2))
           else (res, fs1, d1))
      else (FR_OK, fs, d))"

definition sync_fs :: "FATFS \<Rightarrow> host \<Rightarrow> FRESULT \<times> FATFS \<times> host" where
  "sync_fs fs d =
     (case sync_window fs d of (res, fs1, d1) \<Rightarrow>
        if res = FR_OK then
          (let (fs2, d2) =
                 (if fs_type fs1 = FS_FAT32 \<and> fsi_flag fs1 = 1 then
                    (let w = (\<lambda>_. 0);
                         w = st_word w 510 0xAA55;
                         w = st_dword w 0 0x41615252;
                         w = st_dword w 484 0x61417272;
                         w = st_dword w 488 (free_clst fs1);
                         w = st_dword w 492 (last_clst fs1);
                         fs' = fs1\<lparr>win := (\<lambda>i. if i < unat (SS fs1) then w i else win fs1 i),
                                   winsect := volbase fs1 + 1\<rparr>
                     in (fs'\<lparr>fsi_flag := 0\<rparr>, snd (disk_write d1 [win fs'] (winsect fs'))))
                  else (fs1, d1))
           in case disk_ioctl_sync d2 of
                (ok, d3) \<Rightarrow> (if ok then FR_OK else FR_DISK_ERR, fs2, d3))
        else (res, fs1, d1))"


section \<open>FAT access\<close>

definition clst2sect :: "FATFS \<Rightarrow> DWORD \<Rightarrow> LBA_t" where
  "clst2sect fs clst =
     (let clst = clst - 2 in
      if clst \<ge> n_fatent fs - 2 then 0
      else database fs + ucast (csize fs) * clst)"

text \<open>
  \<^verbatim>\<open>get_fat\<close> returns \<open>0xFFFFFFFF\<close> on a disk error and \<open>1\<close> on an internal error, with
  the volume object and the host as the calls to \<^verbatim>\<open>move_window\<close> left them.
\<close>

definition get_fat :: "FATFS \<Rightarrow> host \<Rightarrow> DWORD \<Rightarrow> DWORD \<times> FATFS \<times> host" where
  "get_fat fs d clst =
     (if clst < 2 \<or> clst \<ge> n_fatent fs then (1, fs, d)
      else if fs_type fs = FS_FAT12 then
        (let bc = clst; bc = bc + bc div 2 in
         case move_window fs d (fatbase fs + bc div SS fs) of (r1, fs1, d1) \<Rightarrow>
           if r1 \<noteq> FR_OK then (0xFFFFFFFF, fs1, d1)
           else
             let wc = (ucast (win fs1 (unat (bc mod SS fs1))) :: UINT); bc = bc + 1 in
             case move_window fs1 d1 (fatbase fs1 + bc div SS fs1) of (r2, fs2, d2) \<Rightarrow>
               if r2 \<noteq> FR_OK then (0xFFFFFFFF, fs2, d2)
               else
                 let wc = wc OR push_bit 8 (ucast (win fs2 (unat (bc mod SS fs2))))
                 in (if clst AND 1 \<noteq> 0 then drop_bit 4 wc else wc AND 0xFFF, fs2, d2))
      else if fs_type fs = FS_FAT16 then
        (case move_window fs d (fatbase fs + clst div (SS fs div 2)) of (r1, fs1, d1) \<Rightarrow>
           if r1 \<noteq> FR_OK then (0xFFFFFFFF, fs1, d1)
           else (ucast (ld_word (win fs1) (unat (clst * 2 mod SS fs1))), fs1, d1))
      else if fs_type fs = FS_FAT32 then
        (case move_window fs d (fatbase fs + clst div (SS fs div 4)) of (r1, fs1, d1) \<Rightarrow>
           if r1 \<noteq> FR_OK then (0xFFFFFFFF, fs1, d1)
           else (ld_dword (win fs1) (unat (clst * 4 mod SS fs1)) AND 0x0FFFFFFF, fs1, d1))
      else (1, fs, d))"

definition put_fat :: "FATFS \<Rightarrow> host \<Rightarrow> DWORD \<Rightarrow> DWORD \<Rightarrow> FRESULT \<times> FATFS \<times> host" where
  "put_fat fs d clst val =
     (if clst \<ge> 2 \<and> clst < n_fatent fs then
        (if fs_type fs = FS_FAT12 then
           (let bc = clst; bc = bc + bc div 2 in
            case move_window fs d (fatbase fs + bc div SS fs) of (r1, fs1, d1) \<Rightarrow>
              if r1 \<noteq> FR_OK then (r1, fs1, d1)
              else
                let p = unat (bc mod SS fs1); bc = bc + 1;
                    b = win fs1 p;
                    fs1 = fs1\<lparr>win := (win fs1)
                            (p := (if clst AND 1 \<noteq> 0
                                   then (b AND 0x0F) OR push_bit 4 (ucast val)
                                   else ucast val)),
                          wflag := 1\<rparr>
                in case move_window fs1 d1 (fatbase fs1 + bc div SS fs1) of (r2, fs2, d2) \<Rightarrow>
                  if r2 \<noteq> FR_OK then (r2, fs2, d2)
                  else
                    let p = unat (bc mod SS fs2); b = win fs2 p
                    in (FR_OK,
                        fs2\<lparr>win := (win fs2)
                              (p := (if clst AND 1 \<noteq> 0
                                     then ucast (drop_bit 4 val)
                                     else (b AND 0xF0) OR (ucast (drop_bit 8 val) AND 0x0F))),
                            wflag := 1\<rparr>,
                        d2))
         else if fs_type fs = FS_FAT16 then
           (case move_window fs d (fatbase fs + clst div (SS fs div 2)) of (r1, fs1, d1) \<Rightarrow>
              if r1 \<noteq> FR_OK then (r1, fs1, d1)
              else (FR_OK,
                    fs1\<lparr>win := st_word (win fs1) (unat (clst * 2 mod SS fs1)) (ucast val),
                        wflag := 1\<rparr>,
                    d1))
         else if fs_type fs = FS_FAT32 then
           (case move_window fs d (fatbase fs + clst div (SS fs div 4)) of (r1, fs1, d1) \<Rightarrow>
              if r1 \<noteq> FR_OK then (r1, fs1, d1)
              else
                let val = (val AND 0x0FFFFFFF)
                          OR (ld_dword (win fs1) (unat (clst * 4 mod SS fs1)) AND 0xF0000000)
                in (FR_OK,
                    fs1\<lparr>win := st_dword (win fs1) (unat (clst * 4 mod SS fs1)) val,
                        wflag := 1\<rparr>,
                    d1))
         else (FR_INT_ERR, fs, d))
      else (FR_INT_ERR, fs, d))"


section \<open>Cluster chains\<close>

text \<open>
  \<^verbatim>\<open>remove_chain\<close> (with \<^verbatim>\<open>FF_USE_TRIM == 0\<close>). The walk is the \<^verbatim>\<open>do ... while\<close>
  loop of the source; it yields \<open>None\<close> if it never ends.
\<close>

partial_function (option) remove_chain_loop ::
  "FATFS \<Rightarrow> host \<Rightarrow> DWORD \<Rightarrow> (FRESULT \<times> FATFS \<times> host) option" where
  "remove_chain_loop fs d clst =
     (case get_fat fs d clst of (nxt, fs1, d1) \<Rightarrow>
        if nxt = 0 then Some (FR_OK, fs1, d1)
        else if nxt = 1 then Some (FR_INT_ERR, fs1, d1)
        else if nxt = 0xFFFFFFFF then Some (FR_DISK_ERR, fs1, d1)
        else
          (case put_fat fs1 d1 clst 0 of (res, fs2, d2) \<Rightarrow>
             if res \<noteq> FR_OK then Some (res, fs2, d2)
             else
               (case (if free_clst fs2 < n_fatent fs2 - 2
                      then fs2\<lparr>free_clst := free_clst fs2 + 1, fsi_flag := fsi_flag fs2 OR 1\<rparr>
                      else fs2) of fs3 \<Rightarrow>
                  if nxt < n_fatent fs3 then remove_chain_loop fs3 d2 nxt
                  else Some (FR_OK, fs3, d2))))"

definition remove_chain ::
  "FATFS \<Rightarrow> host \<Rightarrow> DWORD \<Rightarrow> DWORD \<Rightarrow> (FRESULT \<times> FATFS \<times> host) option" where
  "remove_chain fs d clst pclst =
     (if clst < 2 \<or> clst \<ge> n_fatent fs then Some (FR_INT_ERR, fs, d)
      else if pclst \<noteq> 0 then
        (case put_fat fs d pclst 0xFFFFFFFF of (res, fs1, d1) \<Rightarrow>
           if res \<noteq> FR_OK then Some (res, fs1, d1)
           else remove_chain_loop fs1 d1 clst)
      else remove_chain_loop fs d clst)"

text \<open>
  \<^verbatim>\<open>create_chain\<close>. A block of the function either returns from the function
  (\<open>Return\<close>) or hands a cluster number on to the next block (\<open>Next\<close>).
\<close>

datatype step = Return DWORD | Next DWORD

text \<open>The start cluster \<^verbatim>\<open>scl\<close>: the suggestion for a new chain, or the chain's end.\<close>

definition create_chain_start :: "FATFS \<Rightarrow> host \<Rightarrow> DWORD \<Rightarrow> step \<times> FATFS \<times> host" where
  "create_chain_start fs d clst =
     (if clst = 0 then
        (let scl = last_clst fs;
             scl = (if scl = 0 \<or> scl \<ge> n_fatent fs then 1 else scl)
         in (Next scl, fs, d))
      else
        (case get_fat fs d clst of (cs, fs1, d1) \<Rightarrow>
           if cs < 2 then (Return 1, fs1, d1)
           else if cs = 0xFFFFFFFF then (Return cs, fs1, d1)
           else if cs < n_fatent fs1 then (Return cs, fs1, d1)
           else (Next clst, fs1, d1)))"

text \<open>
  The test of the cluster after the chain's end, made only when a chain is stretched
  (\<^verbatim>\<open>scl == clst\<close>). It returns from the function on an error, or hands on \<^verbatim>\<open>ncl\<close>
  (0 when the scan is still to be made) together with \<^verbatim>\<open>scl\<close>.
\<close>

definition create_chain_contig ::
  "FATFS \<Rightarrow> host \<Rightarrow> DWORD \<Rightarrow> DWORD \<Rightarrow> step \<times> DWORD \<times> FATFS \<times> host" where
  "create_chain_contig fs d clst scl =
     (if scl = clst then
        (let ncl = scl + 1; ncl = (if ncl \<ge> n_fatent fs then 2 else ncl) in
         case get_fat fs d ncl of (cs, fs1, d1) \<Rightarrow>
           if cs = 1 \<or> cs = 0xFFFFFFFF then (Return cs, scl, fs1, d1)
           else if cs \<noteq> 0 then
             (let cs = last_clst fs1;
                  scl = (if cs \<ge> 2 \<and> cs < n_fatent fs1 then cs else scl)
              in (Next 0, scl, fs1, d1))
           else (Next ncl, scl, fs1, d1))
      else (Next 0, scl, fs, d))"

text \<open>The scan \<^verbatim>\<open>for (;;)\<close>, entered with \<^verbatim>\<open>ncl = scl\<close>.\<close>

partial_function (option) create_chain_loop ::
  "FATFS \<Rightarrow> host \<Rightarrow> DWORD \<Rightarrow> DWORD \<Rightarrow> (step \<times> FATFS \<times> host) option" where
  "create_chain_loop fs d scl ncl =
     (case ncl + 1 of ncl \<Rightarrow>
        if ncl \<ge> n_fatent fs \<and> 2 > scl then Some (Return 0, fs, d)
        else
          (case (if ncl \<ge> n_fatent fs then 2 else ncl) of ncl \<Rightarrow>
             (case get_fat fs d ncl of (cs, fs1, d1) \<Rightarrow>
                if cs = 0 then Some (Next ncl, fs1, d1)
                else if cs = 1 \<or> cs = 0xFFFFFFFF then Some (Return cs, fs1, d1)
                else if ncl = scl then Some (Return 0, fs1, d1)
                else create_chain_loop fs1 d1 scl ncl)))"

text \<open>Marking the new cluster, linking it, and the bookkeeping.\<close>

definition create_chain_link ::
  "FATFS \<Rightarrow> host \<Rightarrow> DWORD \<Rightarrow> DWORD \<Rightarrow> DWORD \<times> FATFS \<times> host" where
  "create_chain_link fs d clst ncl =
     (case put_fat fs d ncl 0xFFFFFFFF of (res, fs1, d1) \<Rightarrow>
        case (if res = FR_OK \<and> clst \<noteq> 0 then put_fat fs1 d1 clst ncl else (res, fs1, d1)) of
          (res, fs2, d2) \<Rightarrow>
            if res = FR_OK then
              (ncl,
               (let fs3 = fs2\<lparr>last_clst := ncl\<rparr>;
                    fs3 = (if free_clst fs3 \<le> n_fatent fs3 - 2
                           then fs3\<lparr>free_clst := free_clst fs3 - 1\<rparr> else fs3)
                in fs3\<lparr>fsi_flag := fsi_flag fs3 OR 1\<rparr>),
               d2)
            else (if res = FR_DISK_ERR then 0xFFFFFFFF else 1, fs2, d2))"

definition create_chain :: "FATFS \<Rightarrow> host \<Rightarrow> DWORD \<Rightarrow> (DWORD \<times> FATFS \<times> host) option" where
  "create_chain fs d clst =
     (case create_chain_start fs d clst of
        (Return v, fs1, d1) \<Rightarrow> Some (v, fs1, d1)
      | (Next scl, fs1, d1) \<Rightarrow>
          if free_clst fs1 = 0 then Some (0, fs1, d1)
          else
            (case create_chain_contig fs1 d1 clst scl of
               (Return v, _, fs2, d2) \<Rightarrow> Some (v, fs2, d2)
             | (Next ncl, scl, fs2, d2) \<Rightarrow>
                 if ncl = 0 then
                   (case create_chain_loop fs2 d2 scl scl of
                      None \<Rightarrow> None
                    | Some (Return v, fs3, d3) \<Rightarrow> Some (v, fs3, d3)
                    | Some (Next ncl, fs3, d3) \<Rightarrow> Some (create_chain_link fs3 d3 clst ncl))
                 else Some (create_chain_link fs2 d2 clst ncl)))"

text \<open>
  The scan of a new chain as the specification words it: the clusters after the start
  cluster up to the last FAT entry, then from cluster 2 up to the start cluster, are
  read in this order. The first cell that reads 0 is the free cluster; a cell that reads
  as reserved, or a disk error, ends the scan with that status; when the list is
  exhausted there is no space.
\<close>

definition scan_order :: "nat \<Rightarrow> nat \<Rightarrow> DWORD list" where
  "scan_order scl n = map of_nat ([scl + 1 ..< n] @ [2 ..< scl + 1])"

fun first_free :: "FATFS \<Rightarrow> host \<Rightarrow> DWORD list \<Rightarrow> step \<times> FATFS \<times> host" where
  "first_free fs d [] = (Return 0, fs, d)"
| "first_free fs d (c # cs) =
     (case get_fat fs d c of (v, fs1, d1) \<Rightarrow>
        if v = 0 then (Next c, fs1, d1)
        else if v = 1 \<or> v = 0xFFFFFFFF then (Return v, fs1, d1)
        else first_free fs1 d1 cs)"


section \<open>File objects\<close>

text \<open>
  \<^verbatim>\<open>FIL\<close>. The sticky \<^verbatim>\<open>err\<close> holds a result code (the source stores it in a byte and
  casts it back). \<^verbatim>\<open>dir_ptr\<close> points into the sector window and is the offset of the
  directory entry there. \<^verbatim>\<open>cltbl\<close> is the caller's cluster link map table, \<open>None\<close>
  for the null pointer.
\<close>

record FIL = handle +
  flag :: BYTE
  err :: FRESULT
  fptr :: FSIZE_t
  clust :: DWORD
  sect :: LBA_t
  dir_sect :: LBA_t
  dir_ptr :: nat
  cltbl :: "DWORD list option"
  buf :: buffer

text \<open>
  \<^verbatim>\<open>validate\<close>, for the volume object \<open>fs\<close> that the pointer in the object designates.
\<close>

definition validate :: "FFOBJID \<Rightarrow> FATFS \<Rightarrow> host \<Rightarrow> FRESULT" where
  "validate ob fs d =
     (if obj_fs ob \<noteq> 0 \<and> fs_type fs \<noteq> 0 \<and> obj_id ob = fs_id fs then
        (if \<not> noinit d then FR_OK else FR_INVALID_OBJECT)
      else FR_INVALID_OBJECT)"

text \<open>
  \<^verbatim>\<open>clmt_clust\<close>: \<open>tbl\<close> is the table from its second item on. The source reads the
  table until it meets a fragment length 0; on a table that does not end so, where the
  source would read beyond it, the model answers 0, the error value.
\<close>

fun clmt_walk :: "DWORD list \<Rightarrow> DWORD \<Rightarrow> DWORD" where
  "clmt_walk (ncl # c # tbl) cl =
     (if ncl = 0 then 0 else if cl < ncl then cl + c else clmt_walk tbl (cl - ncl))"
| "clmt_walk tbl cl = 0"

definition clmt_clust :: "DWORD list \<Rightarrow> FATFS \<Rightarrow> FSIZE_t \<Rightarrow> DWORD" where
  "clmt_clust t fs ofs' = clmt_walk (tl t) (ofs' div SS fs div ucast (csize fs))"

text \<open>
  How a step of a transfer loop ends: with \<^verbatim>\<open>ABORT\<close> (the error is latched in the file
  object and returned), with \<^verbatim>\<open>break\<close> and a result, or with a number of bytes
  transferred, after which the loop goes on.
\<close>

datatype flow = Abort FRESULT | Break FRESULT | Go UINT

text \<open>
  Writing back the file's dirty sector cache, as every file function does it:
  \<^verbatim>\<open>if (fp->flag & FA_DIRTY) { if (disk_write(...) != RES_OK) ...; fp->flag &= ~FA_DIRTY; }\<close>
\<close>

definition flush_buf :: "FIL \<Rightarrow> host \<Rightarrow> bool \<times> FIL \<times> host" where
  "flush_buf fp d =
     (if flag fp AND FA_DIRTY \<noteq> 0 then
        (case disk_write d [buf fp] (sect fp) of
           (False, d1) \<Rightarrow> (False, fp, d1)
         | (True, d1) \<Rightarrow> (True, fp\<lparr>flag := flag fp AND NOT FA_DIRTY\<rparr>, d1))
      else (True, fp, d))"

text \<open>The first \<open>n\<close> bytes of each of a list of buffers, laid end to end.\<close>

definition bytes_of :: "nat \<Rightarrow> buffer list \<Rightarrow> BYTE list" where
  "bytes_of n bufs = concat (map (\<lambda>b. map b [0..<n]) bufs)"


subsection \<open>Read\<close>

text \<open>The tail of a loop step: copying the partial sector out of the file's cache.\<close>

definition f_read_partial :: "UINT \<Rightarrow> FIL \<Rightarrow> FATFS \<Rightarrow> host \<Rightarrow> (flow \<times> BYTE list) \<times> FIL \<times> FATFS \<times> host" where
  "f_read_partial btr fp fs d =
     (let rcnt = SS fs - fptr fp mod SS fs;
          rcnt = (if rcnt > btr then btr else rcnt)
      in case user_copy d of
           (False, d1) \<Rightarrow> ((Abort FR_INVALID_PARAMETER, []), fp, fs, d1)
         | (True, d1) \<Rightarrow>
             ((Go rcnt, map (\<lambda>i. buf fp (unat (fptr fp mod SS fs) + i)) [0..<unat rcnt]),
              fp, fs, d1))"

text \<open>On a cluster boundary: the cluster that holds the file pointer.\<close>

definition f_read_cluster :: "FIL \<Rightarrow> FATFS \<Rightarrow> host \<Rightarrow> FRESULT option \<times> FIL \<times> FATFS \<times> host" where
  "f_read_cluster fp fs d =
     (case (if fptr fp = 0 then (sclust (obj fp), fs, d)
            else (case cltbl fp of
                    Some t \<Rightarrow> (clmt_clust t fs (fptr fp), fs, d)
                  | None \<Rightarrow> get_fat fs d (clust fp))) of
        (clst, fs1, d1) \<Rightarrow>
          if clst < 2 then (Some FR_INT_ERR, fp, fs1, d1)
          else if clst = 0xFFFFFFFF then (Some FR_DISK_ERR, fp, fs1, d1)
          else (None, fp\<lparr>clust := clst\<rparr>, fs1, d1))"

text \<open>
  One pass through the body of the \<^verbatim>\<open>for\<close> loop of \<^verbatim>\<open>f_read\<close>, with the bytes it puts
  into the caller's buffer.
\<close>

definition f_read_step :: "UINT \<Rightarrow> FIL \<Rightarrow> FATFS \<Rightarrow> host \<Rightarrow> (flow \<times> BYTE list) \<times> FIL \<times> FATFS \<times> host" where
  "f_read_step btr fp fs d =
     (if fptr fp mod SS fs = 0 then
        (let csect = (fptr fp div SS fs) AND (ucast (csize fs) - 1) in
         case (if csect = 0 then f_read_cluster fp fs d else (None, fp, fs, d)) of
           (Some e, fp1, fs1, d1) \<Rightarrow> ((Abort e, []), fp1, fs1, d1)
         | (None, fp1, fs1, d1) \<Rightarrow>
             (let sec = clst2sect fs1 (clust fp1) in
              if sec = 0 then ((Abort FR_INT_ERR, []), fp1, fs1, d1)
              else
                let sec = sec + csect; cc = btr div SS fs1 in
                if cc > 0 then
                  (let cc = (if csect + cc > ucast (csize fs1)
                             then ucast (csize fs1) - csect else cc)
                   in case disk_read d1 sec (unat cc) of
                        (None, d2) \<Rightarrow> ((Abort FR_DISK_ERR, []), fp1, fs1, d2)
                      | (Some bufs, d2) \<Rightarrow>
                          if flag fp1 AND FA_DIRTY \<noteq> 0 \<and> sect fp1 - sec < cc then
                            (case user_copy d2 of
                               (False, d3) \<Rightarrow> ((Abort FR_INVALID_PARAMETER, []), fp1, fs1, d3)
                             | (True, d3) \<Rightarrow>
                                 ((Go (SS fs1 * cc),
                                   bytes_of (unat (SS fs1)) (bufs[unat (sect fp1 - sec) := buf fp1])),
                                  fp1, fs1, d3))
                          else ((Go (SS fs1 * cc), bytes_of (unat (SS fs1)) bufs), fp1, fs1, d2))
                else
                  (case (if sect fp1 \<noteq> sec then
                           (case flush_buf fp1 d1 of
                              (False, fp2, d2) \<Rightarrow> (False, fp2, d2)
                            | (True, fp2, d2) \<Rightarrow>
                                (case disk_read d2 sec 1 of
                                   (None, d3) \<Rightarrow> (False, fp2, d3)
                                 | (Some bufs, d3) \<Rightarrow> (True, fp2\<lparr>buf := bufs ! 0\<rparr>, d3)))
                         else (True, fp1, d1)) of
                     (False, fp2, d2) \<Rightarrow> ((Abort FR_DISK_ERR, []), fp2, fs1, d2)
                   | (True, fp2, d2) \<Rightarrow> f_read_partial btr (fp2\<lparr>sect := sec\<rparr>) fs1 d2)))
      else f_read_partial btr fp fs d)"

text \<open>
  The loop: \<^verbatim>\<open>for ( ; btr > 0; btr -= rcnt, *br += rcnt, rbuff += rcnt, fp->fptr += rcnt)\<close>.
  \<open>out\<close> is what has been put into the caller's buffer so far. The result is the
  returned code, the buffer contents, \<^verbatim>\<open>*br\<close>, and the objects as the call leaves them.
\<close>

partial_function (option) f_read_loop ::
  "UINT \<Rightarrow> UINT \<Rightarrow> BYTE list \<Rightarrow> FIL \<Rightarrow> FATFS \<Rightarrow> host
     \<Rightarrow> (FRESULT \<times> BYTE list \<times> UINT \<times> FIL \<times> FATFS \<times> host) option" where
  "f_read_loop btr br out fp fs d =
     (if btr > 0 then
        (case f_read_step btr fp fs d of
           ((Go rcnt, data), fp1, fs1, d1) \<Rightarrow>
             f_read_loop (btr - rcnt) (br + rcnt) (out @ data)
               (fp1\<lparr>fptr := fptr fp1 + rcnt\<rparr>) fs1 d1
         | ((Abort e, data), fp1, fs1, d1) \<Rightarrow> Some (e, out, br, fp1\<lparr>err := e\<rparr>, fs1, d1)
         | ((Break e, data), fp1, fs1, d1) \<Rightarrow> Some (e, out, br, fp1, fs1, d1))
      else Some (FR_OK, out, br, fp, fs, d))"

definition f_read ::
  "FATFS \<Rightarrow> host \<Rightarrow> FIL \<Rightarrow> UINT
     \<Rightarrow> (FRESULT \<times> BYTE list \<times> UINT \<times> FIL \<times> FATFS \<times> host) option" where
  "f_read fs d fp btr =
     (let br = 0; res = validate (obj fp) fs d in
      if res \<noteq> FR_OK then Some (res, [], br, fp, fs, d)
      else if err fp \<noteq> FR_OK then Some (err fp, [], br, fp, fs, d)
      else if flag fp AND FA_READ = 0 then Some (FR_NO_EPERM, [], br, fp, fs, d)
      else
        let remain = objsize (obj fp) - fptr fp;
            btr = (if btr > remain then remain else btr)
        in f_read_loop btr br [] fp fs d)"


subsection \<open>Write\<close>

text \<open>
  The caller's data is a buffer, read from the offset that \<^verbatim>\<open>wbuff\<close> has reached.
  On a cluster boundary: the cluster to write to, following the chain, consulting the
  link map table, or allocating. \<open>None\<close> if \<^verbatim>\<open>create_chain\<close> does not return.
\<close>

definition f_write_cluster ::
  "FIL \<Rightarrow> FATFS \<Rightarrow> host \<Rightarrow> (flow option \<times> FIL \<times> FATFS \<times> host) option" where
  "f_write_cluster fp fs d =
     (case (if fptr fp = 0 then
              (if sclust (obj fp) = 0 then create_chain fs d 0
               else Some (sclust (obj fp), fs, d))
            else
              (case cltbl fp of
                 Some t \<Rightarrow> Some (clmt_clust t fs (fptr fp), fs, d)
               | None \<Rightarrow> create_chain fs d (clust fp))) of
        None \<Rightarrow> None
      | Some (clst, fs1, d1) \<Rightarrow>
          Some (if clst = 0 then (Some (Break FR_NO_SPACE_LEFT), fp, fs1, d1)
                else if clst = 1 then (Some (Abort FR_INT_ERR), fp, fs1, d1)
                else if clst = 0xFFFFFFFF then (Some (Abort FR_DISK_ERR), fp, fs1, d1)
                else
                  (None,
                   (let fp1 = fp\<lparr>clust := clst\<rparr> in
                    if sclust (obj fp1) = 0 then fp1\<lparr>obj := (obj fp1)\<lparr>sclust := clst\<rparr>\<rparr> else fp1),
                   fs1, d1)))"

definition f_write_partial ::
  "UINT \<Rightarrow> buffer \<Rightarrow> nat \<Rightarrow> FIL \<Rightarrow> FATFS \<Rightarrow> host \<Rightarrow> flow \<times> FIL \<times> FATFS \<times> host" where
  "f_write_partial btw wbuff off fp fs d =
     (let wcnt = SS fs - fptr fp mod SS fs;
          wcnt = (if wcnt > btw then btw else wcnt)
      in case user_copy d of
           (False, d1) \<Rightarrow> (Abort FR_INVALID_PARAMETER, fp, fs, d1)
         | (True, d1) \<Rightarrow>
             (Go wcnt,
              fp\<lparr>buf := (\<lambda>i. if unat (fptr fp mod SS fs) \<le> i
                                 \<and> i < unat (fptr fp mod SS fs) + unat wcnt
                              then wbuff (off + (i - unat (fptr fp mod SS fs)))
                              else buf fp i),
                 flag := flag fp OR FA_DIRTY\<rparr>,
              fs, d1))"

text \<open>One pass through the body of the \<^verbatim>\<open>for\<close> loop of \<^verbatim>\<open>f_write\<close>.\<close>

definition f_write_step ::
  "UINT \<Rightarrow> buffer \<Rightarrow> nat \<Rightarrow> FIL \<Rightarrow> FATFS \<Rightarrow> host \<Rightarrow> (flow \<times> FIL \<times> FATFS \<times> host) option" where
  "f_write_step btw wbuff off fp fs d =
     (if fptr fp mod SS fs = 0 then
        (let csect = (fptr fp div SS fs) AND (ucast (csize fs) - 1) in
         case (if csect = 0 then f_write_cluster fp fs d else Some (None, fp, fs, d)) of
           None \<Rightarrow> None
         | Some (Some e, fp1, fs1, d1) \<Rightarrow> Some (e, fp1, fs1, d1)
         | Some (None, fp1, fs1, d1) \<Rightarrow>
             Some
               (case flush_buf fp1 d1 of
                  (False, fp2, d2) \<Rightarrow> (Abort FR_DISK_ERR, fp2, fs1, d2)
                | (True, fp2, d2) \<Rightarrow>
                    (let sec = clst2sect fs1 (clust fp2) in
                     if sec = 0 then (Abort FR_INT_ERR, fp2, fs1, d2)
                     else
                       let sec = sec + csect; cc = btw div SS fs1 in
                       if cc > 0 then
                         (let cc = (if csect + cc > ucast (csize fs1)
                                    then ucast (csize fs1) - csect else cc)
                          in case disk_write d2
                                    (map (\<lambda>k i. wbuff (off + k * unat (SS fs1) + i)) [0..<unat cc])
                                    sec of
                               (False, d3) \<Rightarrow> (Abort FR_DISK_ERR, fp2, fs1, d3)
                             | (True, d3) \<Rightarrow>
                                 if sect fp2 - sec < cc then
                                   (case user_copy d3 of
                                      (False, d4) \<Rightarrow> (Abort FR_INVALID_PARAMETER, fp2, fs1, d4)
                                    | (True, d4) \<Rightarrow>
                                        (Go (SS fs1 * cc),
                                         fp2\<lparr>buf := (\<lambda>i. wbuff (off
                                                    + unat (sect fp2 - sec) * unat (SS fs1) + i)),
                                             flag := flag fp2 AND NOT FA_DIRTY\<rparr>,
                                         fs1, d4))
                                 else (Go (SS fs1 * cc), fp2, fs1, d3))
                       else
                         (case (if sect fp2 \<noteq> sec \<and> fptr fp2 < objsize (obj fp2) then
                                  (case disk_read d2 sec 1 of
                                     (None, d3) \<Rightarrow> (False, fp2, d3)
                                   | (Some bufs, d3) \<Rightarrow> (True, fp2\<lparr>buf := bufs ! 0\<rparr>, d3))
                                else (True, fp2, d2)) of
                            (False, fp3, d3) \<Rightarrow> (Abort FR_DISK_ERR, fp3, fs1, d3)
                          | (True, fp3, d3) \<Rightarrow>
                              f_write_partial btw wbuff off (fp3\<lparr>sect := sec\<rparr>) fs1 d3))))
      else Some (f_write_partial btw wbuff off fp fs d))"

text \<open>
  The loop, whose update also moves \<^verbatim>\<open>objsize\<close> up to the file pointer. After it the
  file is marked as modified, also when the loop was left by \<^verbatim>\<open>break\<close>. The result is
  the returned code, \<^verbatim>\<open>*bw\<close>, and the objects as the call leaves them.
\<close>

partial_function (option) f_write_loop ::
  "UINT \<Rightarrow> UINT \<Rightarrow> buffer \<Rightarrow> FIL \<Rightarrow> FATFS \<Rightarrow> host
     \<Rightarrow> (FRESULT \<times> UINT \<times> FIL \<times> FATFS \<times> host) option" where
  "f_write_loop btw bw wbuff fp fs d =
     (if btw > 0 then
        (case f_write_step btw wbuff (unat bw) fp fs d of
           None \<Rightarrow> None
         | Some (Go wcnt, fp1, fs1, d1) \<Rightarrow>
             (case fp1\<lparr>fptr := fptr fp1 + wcnt\<rparr> of fp2 \<Rightarrow>
                f_write_loop (btw - wcnt) (bw + wcnt) wbuff
                  (fp2\<lparr>obj := (obj fp2)\<lparr>objsize :=
                      (if fptr fp2 > objsize (obj fp2) then fptr fp2 else objsize (obj fp2))\<rparr>\<rparr>)
                  fs1 d1)
         | Some (Abort e, fp1, fs1, d1) \<Rightarrow> Some (e, bw, fp1\<lparr>err := e\<rparr>, fs1, d1)
         | Some (Break e, fp1, fs1, d1) \<Rightarrow>
             Some (e, bw, fp1\<lparr>flag := flag fp1 OR FA_MODIFIED\<rparr>, fs1, d1))
      else Some (FR_OK, bw, fp\<lparr>flag := flag fp OR FA_MODIFIED\<rparr>, fs, d))"

definition f_write ::
  "FATFS \<Rightarrow> host \<Rightarrow> FIL \<Rightarrow> buffer \<Rightarrow> UINT
     \<Rightarrow> (FRESULT \<times> UINT \<times> FIL \<times> FATFS \<times> host) option" where
  "f_write fs d fp wbuff btw =
     (let bw = 0; res = validate (obj fp) fs d in
      if res \<noteq> FR_OK then Some (res, bw, fp, fs, d)
      else if err fp \<noteq> FR_OK then Some (err fp, bw, fp, fs, d)
      else if flag fp AND FA_WRITE = 0 then Some (FR_NO_EPERM, bw, fp, fs, d)
      else
        let btw = (if fptr fp + btw < fptr fp then 0xFFFFFFFF - fptr fp else btw)
        in f_write_loop btw bw wbuff fp fs d)"


subsection \<open>Truncate\<close>

definition get_end_of_cluster :: "FATFS \<Rightarrow> DWORD" where
  "get_end_of_cluster fs =
     (if fs_type fs = FS_FAT12 then 0x00000FFF
      else if fs_type fs = FS_FAT16 then 0x0000FFFF
      else if fs_type fs = FS_FAT32 then 0x0FFFFFFF
      else 0xFFFFFFFF)"

text \<open>
  The walk of \<^verbatim>\<open>f_truncate\<close> along the chain,
  \<^verbatim>\<open>do { fclust = val; val = get_fat(..., fclust); count++; if (count == tcl) break; }\<close>
  \<^verbatim>\<open>while ((val != last_clust) && (val != 1) && (val != 0xFFFFFFFF));\<close>
  It yields \<^verbatim>\<open>fclust\<close> and \<^verbatim>\<open>val\<close>.
\<close>

partial_function (option) f_truncate_walk ::
  "FATFS \<Rightarrow> host \<Rightarrow> DWORD \<Rightarrow> DWORD \<Rightarrow> DWORD \<Rightarrow> DWORD
     \<Rightarrow> (DWORD \<times> DWORD \<times> FATFS \<times> host) option" where
  "f_truncate_walk fs d tcl last_clust val count =
     (case val of fclust \<Rightarrow>
        (case get_fat fs d fclust of (val, fs1, d1) \<Rightarrow>
           (case count + 1 of count \<Rightarrow>
              if count = tcl then Some (fclust, val, fs1, d1)
              else if val \<noteq> last_clust \<and> val \<noteq> 1 \<and> val \<noteq> 0xFFFFFFFF
              then f_truncate_walk fs1 d1 tcl last_clust val count
              else Some (fclust, val, fs1, d1))))"

text \<open>
  \<^verbatim>\<open>f_truncate(fp, length)\<close>. The result is the returned code and the objects as the
  call leaves them; \<open>None\<close> if a chain walk does not end.
\<close>

definition f_truncate ::
  "FATFS \<Rightarrow> host \<Rightarrow> FIL \<Rightarrow> FSIZE_t \<Rightarrow> (FRESULT \<times> FIL \<times> FATFS \<times> host) option" where
  "f_truncate fs d fp len =
     (let res = validate (obj fp) fs d in
      if res \<noteq> FR_OK then Some (res, fp, fs, d)
      else if err fp \<noteq> FR_OK then Some (err fp, fp, fs, d)
      else if flag fp AND FA_WRITE = 0 then Some (FR_NO_EPERM, fp, fs, d)
      else if fptr fp \<le> objsize (obj fp) then
        (case (if fptr fp = 0 \<and> len = 0 then
                 (case remove_chain fs d (sclust (obj fp)) 0 of
                    None \<Rightarrow> None
                  | Some (res, fs1, d1) \<Rightarrow>
                      Some (res, 0, fp\<lparr>obj := (obj fp)\<lparr>sclust := 0\<rparr>\<rparr>, fs1, d1))
               else
                 (let n = ucast (csize fs) * SS fs;
                      tcl = len div n + (if len AND (n - 1) \<noteq> 0 then 1 else 0)
                  in case f_truncate_walk fs d tcl (get_end_of_cluster fs) (sclust (obj fp)) 0 of
                       None \<Rightarrow> None
                     | Some (fclust, val, fs1, d1) \<Rightarrow>
                         (let res = FR_OK;
                              res = (if val = 0xFFFFFFFF then FR_DISK_ERR else res);
                              res = (if val = 1 then FR_INT_ERR else res)
                          in if res = FR_OK \<and> val < n_fatent fs1 then
                               (case remove_chain fs1 d1 val fclust of
                                  None \<Rightarrow> None
                                | Some (res, fs2, d2) \<Rightarrow> Some (res, fclust, fp, fs2, d2))
                             else Some (res, fclust, fp, fs1, d1)))) of
           None \<Rightarrow> None
         | Some (res, fclust, fp1, fs1, d1) \<Rightarrow>
             (let (fp2, fs2) =
                    (if res = FR_OK then
                       (let fp' = fp1\<lparr>obj := (obj fp1)\<lparr>objsize := len\<rparr>\<rparr> in
                        if fptr fp' > len then fp'\<lparr>fptr := len, clust := fclust\<rparr> else fp',
                        fs1\<lparr>last_clst := fclust\<rparr>)
                     else (fp1, fs1));
                  fp3 = fp2\<lparr>flag := flag fp2 OR FA_MODIFIED\<rparr>;
                  (res, fp4, d2) =
                    (if res = FR_OK \<and> flag fp3 AND FA_DIRTY \<noteq> 0 then
                       (case disk_write d1 [buf fp3] (sect fp3) of
                          (False, d') \<Rightarrow> (FR_DISK_ERR, fp3, d')
                        | (True, d') \<Rightarrow> (res, fp3\<lparr>flag := flag fp3 AND NOT FA_DIRTY\<rparr>, d'))
                     else (res, fp3, d1))
              in if res \<noteq> FR_OK then Some (res, fp4\<lparr>err := res\<rparr>, fs2, d2)
                 else Some (res, fp4, fs2, d2)))
      else Some (res, fp, fs, d))"


subsection \<open>Sync and close\<close>

text \<open>Offsets in a directory entry (the standard layout of the 32-byte entry).\<close>

definition DIR_Attr :: nat where "DIR_Attr = 11"
definition DIR_LstAccDate :: nat where "DIR_LstAccDate = 18"
definition DIR_FstClusHI :: nat where "DIR_FstClusHI = 20"
definition DIR_ModTime :: nat where "DIR_ModTime = 22"
definition DIR_FstClusLO :: nat where "DIR_FstClusLO = 26"
definition DIR_FileSize :: nat where "DIR_FileSize = 28"

definition ld_clust :: "FATFS \<Rightarrow> buffer \<Rightarrow> nat \<Rightarrow> DWORD" where
  "ld_clust fs b dir =
     (let cl = (ucast (ld_word b (dir + DIR_FstClusLO)) :: DWORD) in
      if fs_type fs = FS_FAT32
      then cl OR push_bit 16 (ucast (ld_word b (dir + DIR_FstClusHI)))
      else cl)"

definition st_clust :: "FATFS \<Rightarrow> buffer \<Rightarrow> nat \<Rightarrow> DWORD \<Rightarrow> buffer" where
  "st_clust fs b dir cl =
     (let b = st_word b (dir + DIR_FstClusLO) (ucast cl) in
      if fs_type fs = FS_FAT32
      then st_word b (dir + DIR_FstClusHI) (ucast (drop_bit 16 cl))
      else b)"

text \<open>
  \<^verbatim>\<open>f_sync\<close> checks the object with \<^verbatim>\<open>validate\<close> only; it does not look at \<^verbatim>\<open>fp->err\<close>.
\<close>

definition f_sync :: "FATFS \<Rightarrow> host \<Rightarrow> FIL \<Rightarrow> FRESULT \<times> FIL \<times> FATFS \<times> host" where
  "f_sync fs d fp =
     (let res = validate (obj fp) fs d in
      if res = FR_OK then
        (if flag fp AND FA_MODIFIED \<noteq> 0 then
           (case flush_buf fp d of
              (False, fp1, d1) \<Rightarrow> (FR_DISK_ERR, fp1, fs, d1)
            | (True, fp1, d1) \<Rightarrow>
                (let tm = fattime d1 in
                 case move_window fs d1 (dir_sect fp1) of (res, fs1, d2) \<Rightarrow>
                   if res = FR_OK then
                     (let dir = dir_ptr fp1;
                          w = win fs1;
                          w = w(dir + DIR_Attr := w (dir + DIR_Attr) OR AM_ARC);
                          w = st_clust fs1 w dir (sclust (obj fp1));
                          w = st_dword w (dir + DIR_FileSize) (objsize (obj fp1));
                          w = (if time_status d2 = SYSTEM_TIME_ENABLE
                               then st_dword w (dir + DIR_ModTime) tm
                               else if time_status d2 = SYSTEM_TIME_DISABLE
                               then st_dword w (dir + DIR_ModTime) 0
                               else w);
                          w = st_word w (dir + DIR_LstAccDate) 0;
                          fs2 = fs1\<lparr>win := w, wflag := 1\<rparr>
                      in case sync_fs fs2 d2 of (res, fs3, d3) \<Rightarrow>
                           (res, fp1\<lparr>flag := flag fp1 AND NOT FA_MODIFIED\<rparr>, fs3, d3))
                   else (res, fp1, fs1, d2)))
         else (res, fp, fs, d))
      else (res, fp, fs, d))"

text \<open>\<^verbatim>\<open>f_close\<close>, with the registry.\<close>

definition f_close ::
  "FILESEM list \<Rightarrow> FATFS \<Rightarrow> host \<Rightarrow> FIL \<Rightarrow> FRESULT \<times> FIL \<times> FILESEM list \<times> FATFS \<times> host" where
  "f_close Files fs d fp =
     (case f_sync fs d fp of (res, fp1, fs1, d1) \<Rightarrow>
        if res = FR_OK \<or> res = FR_DISK_ERR then
          (let res = validate (obj fp1) fs1 d1 in
           if res = FR_OK then
             (case dec_share Files (lockid (obj fp1)) of (res, Files1) \<Rightarrow>
                (res,
                 (if res = FR_OK then fp1\<lparr>obj := (obj fp1)\<lparr>obj_fs := 0\<rparr>\<rparr> else fp1),
                 Files1, fs1, d1))
           else (res, fp1, Files, fs1, d1))
        else (res, fp1, Files, fs1, d1))"


section \<open>Seek\<close>

text \<open>
  Making the link map table (\<^verbatim>\<open>ofs == CREATE_LINKMAP\<close>). The inner loop counts one
  fragment of contiguous clusters,
  \<^verbatim>\<open>do { pcl = cl; ncl++; cl = get_fat(..., cl); ... } while (cl == pcl + 1);\<close>
  and yields \<^verbatim>\<open>cl\<close> and \<^verbatim>\<open>ncl\<close> or the error to abort with.
\<close>

partial_function (option) f_lseek_fragment ::
  "FATFS \<Rightarrow> host \<Rightarrow> DWORD \<Rightarrow> DWORD \<Rightarrow> ((FRESULT + DWORD \<times> DWORD) \<times> FATFS \<times> host) option" where
  "f_lseek_fragment fs d cl ncl =
     (case (cl, ncl + 1) of (pcl, ncl) \<Rightarrow>
        (case get_fat fs d cl of (cl, fs1, d1) \<Rightarrow>
           if cl \<le> 1 then Some (Inl FR_INT_ERR, fs1, d1)
           else if cl = 0xFFFFFFFF then Some (Inl FR_DISK_ERR, fs1, d1)
           else if cl = pcl + 1 then f_lseek_fragment fs1 d1 cl ncl
           else Some (Inr (cl, ncl), fs1, d1)))"

text \<open>
  The outer loop over the fragments. \<open>t\<close> is the caller's table, \<open>pos\<close> the index that
  \<^verbatim>\<open>tbl\<close> has reached, \<open>tlen\<close> the size the caller gave. A store beyond the end of the
  list, which the source would make into memory the caller does not own if the table
  were shorter than it says, is dropped. The result is the error to abort with, if
  any, and the table, \<^verbatim>\<open>tbl\<close> and \<^verbatim>\<open>ulen\<close>.
\<close>

partial_function (option) f_lseek_linkmap ::
  "FATFS \<Rightarrow> host \<Rightarrow> DWORD \<Rightarrow> DWORD list \<Rightarrow> nat \<Rightarrow> DWORD \<Rightarrow> DWORD
     \<Rightarrow> (FRESULT option \<times> (DWORD list \<times> nat \<times> DWORD) \<times> FATFS \<times> host) option" where
  "f_lseek_linkmap fs d tlen t pos ulen cl =
     (case (cl, ulen + 2) of (tcl, ulen) \<Rightarrow>
        (case f_lseek_fragment fs d cl 0 of
           None \<Rightarrow> None
         | Some (Inl e, fs1, d1) \<Rightarrow> Some (Some e, (t, pos, ulen), fs1, d1)
         | Some (Inr (cl, ncl), fs1, d1) \<Rightarrow>
             (case (if ulen \<le> tlen then (t[pos := ncl, pos + 1 := tcl], pos + 2) else (t, pos)) of
                (t, pos) \<Rightarrow>
                  if cl < n_fatent fs1 then f_lseek_linkmap fs1 d1 tlen t pos ulen cl
                  else Some (None, (t, pos, ulen), fs1, d1))))"

text \<open>Loading the sector that holds the file pointer into the file's cache.\<close>

definition f_lseek_fill :: "FIL \<Rightarrow> host \<Rightarrow> LBA_t \<Rightarrow> bool \<times> FIL \<times> host" where
  "f_lseek_fill fp d sec =
     (case flush_buf fp d of
        (False, fp1, d1) \<Rightarrow> (False, fp1, d1)
      | (True, fp1, d1) \<Rightarrow>
          (case disk_read d1 sec 1 of
             (None, d2) \<Rightarrow> (False, fp1, d2)
           | (Some bufs, d2) \<Rightarrow> (True, fp1\<lparr>buf := bufs ! 0, sect := sec\<rparr>, d2)))"

text \<open>The fast seek, for a file object with a link map table \<open>t\<close>.\<close>

definition f_lseek_fast ::
  "FATFS \<Rightarrow> host \<Rightarrow> FIL \<Rightarrow> DWORD list \<Rightarrow> FSIZE_t \<Rightarrow> (FRESULT \<times> FIL \<times> FATFS \<times> host) option" where
  "f_lseek_fast fs d fp t ofs' =
     (if ofs' = 0xFFFFFFFF then
        (case (if sclust (obj fp) \<noteq> 0
               then f_lseek_linkmap fs d (t ! 0) t 1 2 (sclust (obj fp))
               else Some (None, (t, 1, 2), fs, d)) of
           None \<Rightarrow> None
         | Some (Some e, (t1, pos, ulen), fs1, d1) \<Rightarrow>
             Some (e, fp\<lparr>err := e, cltbl := Some t1\<rparr>, fs1, d1)
         | Some (None, (t1, pos, ulen), fs1, d1) \<Rightarrow>
             (let tlen = t ! 0; t2 = t1[0 := ulen] in
              if ulen \<le> tlen then Some (FR_OK, fp\<lparr>cltbl := Some (t2[pos := 0])\<rparr>, fs1, d1)
              else Some (FR_NOT_ENOUGH_CORE, fp\<lparr>cltbl := Some t2\<rparr>, fs1, d1)))
      else
        (let ofs' = (if ofs' > objsize (obj fp) then objsize (obj fp) else ofs');
             fp1 = fp\<lparr>fptr := ofs'\<rparr>
         in if ofs' > 0 then
              (let fp2 = fp1\<lparr>clust := clmt_clust t fs (ofs' - 1)\<rparr>;
                   dsc = clst2sect fs (clust fp2)
               in if dsc = 0 then Some (FR_INT_ERR, fp2\<lparr>err := FR_INT_ERR\<rparr>, fs, d)
                  else
                    let dsc = dsc + (((ofs' - 1) div SS fs) AND (ucast (csize fs) - 1)) in
                    if fptr fp2 mod SS fs \<noteq> 0 \<and> dsc \<noteq> sect fp2 then
                      (case f_lseek_fill fp2 d dsc of
                         (False, fp3, d1) \<Rightarrow> Some (FR_DISK_ERR, fp3\<lparr>err := FR_DISK_ERR\<rparr>, fs, d1)
                       | (True, fp3, d1) \<Rightarrow> Some (FR_OK, fp3, fs, d1))
                    else Some (FR_OK, fp2, fs, d))
            else Some (FR_OK, fp1, fs, d)))"

text \<open>
  The cluster following loop of the normal seek, \<^verbatim>\<open>while (ofs > bcs) { ... }\<close>. It
  yields the error to abort with, or \<^verbatim>\<open>ofs\<close>, \<^verbatim>\<open>clst\<close> and \<^verbatim>\<open>res\<close>.
\<close>

partial_function (option) f_lseek_follow ::
  "DWORD \<Rightarrow> FRESULT \<Rightarrow> FSIZE_t \<Rightarrow> DWORD \<Rightarrow> FIL \<Rightarrow> FATFS \<Rightarrow> host
     \<Rightarrow> ((FRESULT + FSIZE_t \<times> DWORD \<times> FRESULT) \<times> FIL \<times> FATFS \<times> host) option" where
  "f_lseek_follow bcs res ofs' clst fp fs d =
     (if ofs' > bcs then
        (case (ofs' - bcs, fp\<lparr>fptr := fptr fp + bcs\<rparr>) of (ofs', fp1) \<Rightarrow>
           (case (if flag fp1 AND FA_WRITE \<noteq> 0 then create_chain fs d clst
                  else Some (get_fat fs d clst)) of
              None \<Rightarrow> None
            | Some (clst, fs1, d1) \<Rightarrow>
                if flag fp1 AND FA_WRITE \<noteq> 0 \<and> clst = 0
                then Some (Inr (0, clst, FR_NO_SPACE_LEFT), fp1, fs1, d1)
                else if clst = 0xFFFFFFFF then Some (Inl FR_DISK_ERR, fp1, fs1, d1)
                else if clst \<le> 1 \<or> clst \<ge> n_fatent fs1 then Some (Inl FR_INT_ERR, fp1, fs1, d1)
                else f_lseek_follow bcs res ofs' clst (fp1\<lparr>clust := clst\<rparr>) fs1 d1))
      else Some (Inr (ofs', clst, res), fp, fs, d))"

text \<open>
  The normal seek up to the point where the file pointer is set: it yields the error to
  abort with, or \<^verbatim>\<open>nsect\<close> and \<^verbatim>\<open>res\<close>.
\<close>

definition f_lseek_walk ::
  "FATFS \<Rightarrow> host \<Rightarrow> FIL \<Rightarrow> FSIZE_t \<Rightarrow> ((FRESULT + LBA_t \<times> FRESULT) \<times> FIL \<times> FATFS \<times> host) option" where
  "f_lseek_walk fs d fp ofs' =
     (let ofs' = (if ofs' > objsize (obj fp) \<and> flag fp AND FA_WRITE = 0
                  then objsize (obj fp) else ofs');
          ifptr = fptr fp;
          fp = fp\<lparr>fptr := 0\<rparr>
      in if ofs' > 0 then
           (let bcs = ucast (csize fs) * SS fs in
            case (if ifptr > 0 \<and> (ofs' - 1) div bcs \<ge> (ifptr - 1) div bcs then
                    (let fp1 = fp\<lparr>fptr := (ifptr - 1) AND NOT (bcs - 1)\<rparr>
                     in Some (Inr (ofs' - fptr fp1, clust fp1, FR_OK), fp1, fs, d))
                  else if sclust (obj fp) = 0 then
                    (case create_chain fs d 0 of
                       None \<Rightarrow> None
                     | Some (clst, fs1, d1) \<Rightarrow>
                         if clst = 1 then Some (Inl FR_INT_ERR, fp, fs1, d1)
                         else if clst = 0xFFFFFFFF then Some (Inl FR_DISK_ERR, fp, fs1, d1)
                         else Some (Inr (ofs', clst,
                                         if clst = 0 then FR_NO_SPACE_LEFT else FR_OK),
                                    fp\<lparr>obj := (obj fp)\<lparr>sclust := clst\<rparr>, clust := clst\<rparr>,
                                    fs1, d1))
                  else Some (Inr (ofs', sclust (obj fp), FR_OK),
                             fp\<lparr>clust := sclust (obj fp)\<rparr>, fs, d)) of
              None \<Rightarrow> None
            | Some (Inl e, fp1, fs1, d1) \<Rightarrow> Some (Inl e, fp1, fs1, d1)
            | Some (Inr (ofs', clst, res), fp1, fs1, d1) \<Rightarrow>
                if clst \<noteq> 0 then
                  (case f_lseek_follow bcs res ofs' clst fp1 fs1 d1 of
                     None \<Rightarrow> None
                   | Some (Inl e, fp2, fs2, d2) \<Rightarrow> Some (Inl e, fp2, fs2, d2)
                   | Some (Inr (ofs', clst, res), fp2, fs2, d2) \<Rightarrow>
                       (let fp3 = fp2\<lparr>fptr := fptr fp2 + ofs'\<rparr> in
                        if ofs' mod SS fs2 \<noteq> 0 then
                          (let nsect = clst2sect fs2 clst in
                           if nsect = 0 then Some (Inl FR_INT_ERR, fp3, fs2, d2)
                           else Some (Inr (nsect + ofs' div SS fs2, res), fp3, fs2, d2))
                        else Some (Inr (0, res), fp3, fs2, d2)))
                else Some (Inr (0, res), fp1, fs1, d1))
         else Some (Inr (0, FR_OK), fp, fs, d))"

text \<open>
  \<^verbatim>\<open>f_lseek\<close>. The result is the returned code and the objects as the call leaves them.
\<close>

definition f_lseek ::
  "FATFS \<Rightarrow> host \<Rightarrow> FIL \<Rightarrow> FSIZE_t \<Rightarrow> (FRESULT \<times> FIL \<times> FATFS \<times> host) option" where
  "f_lseek fs d fp ofs' =
     (let res = validate (obj fp) fs d;
          res = (if res = FR_OK then err fp else res)
      in if res \<noteq> FR_OK then Some (res, fp, fs, d)
         else
           (case cltbl fp of
              Some t \<Rightarrow> f_lseek_fast fs d fp t ofs'
            | None \<Rightarrow>
                (case f_lseek_walk fs d fp ofs' of
                   None \<Rightarrow> None
                 | Some (Inl e, fp1, fs1, d1) \<Rightarrow> Some (e, fp1\<lparr>err := e\<rparr>, fs1, d1)
                 | Some (Inr (nsect, res), fp1, fs1, d1) \<Rightarrow>
                     (let fp2 = (if fptr fp1 > objsize (obj fp1)
                                 then fp1\<lparr>obj := (obj fp1)\<lparr>objsize := fptr fp1\<rparr>,
                                          flag := flag fp1 OR FA_MODIFIED\<rparr>
                                 else fp1)
                      in if fptr fp2 mod SS fs1 \<noteq> 0 \<and> nsect \<noteq> sect fp2 then
                           (case f_lseek_fill fp2 d1 nsect of
                              (False, fp3, d2) \<Rightarrow>
                                Some (FR_DISK_ERR, fp3\<lparr>err := FR_DISK_ERR\<rparr>, fs1, d2)
                            | (True, fp3, d2) \<Rightarrow> Some (res, fp3, fs1, d2))
                         else Some (res, fp2, fs1, d1)))))"


section \<open>Reading the boot sector\<close>


text \<open>
  Modelled from the spec: the cluster count limits \<^verbatim>\<open>MAX_FAT12\<close> and \<^verbatim>\<open>MAX_FAT16\<close> are
  macros of the header, which is not among the sources. The specification gives the
  classification as FAT12 if the cluster count is at most 4084, FAT16 if it is at most
  65524, else FAT32.
\<close>

definition MAX_FAT12 :: DWORD where "MAX_FAT12 = 4084"
definition MAX_FAT16 :: DWORD where "MAX_FAT16 = 65524"

text \<open>
  The limit \<^verbatim>\<open>MAX_FAT32\<close>, of which the specification says nothing, and the option
  \<^verbatim>\<open>FF_FS_NOFSINFO\<close> (0 to 3) are parameters of the build.
\<close>

record ffconf =
  MAX_FAT32 :: DWORD
  FF_FS_NOFSINFO :: nat


definition fat_subtype :: "ffconf \<Rightarrow> DWORD \<Rightarrow> BYTE" where
  "fat_subtype cf nclst =
     (let fmt = (0 :: BYTE);
          fmt = (if nclst \<le> MAX_FAT32 cf then FS_FAT32 else fmt);
          fmt = (if nclst \<le> MAX_FAT16 then FS_FAT16 else fmt);
          fmt = (if nclst \<le> MAX_FAT12 then FS_FAT12 else fmt)
      in fmt)"













section \<open>Numbered short names\<close>

text \<open>
  The name status byte and its flags. A short name in directory form is a buffer of 12
  bytes: 8 of body, 3 of extension, and the status byte at \<^verbatim>\<open>NSFLAG\<close>. The long name
  is a buffer of 16-bit characters ended by a zero character; as a list, its end also
  ends the name.
\<close>

type_synonym WCHAR = "16 word"

definition NSFLAG :: nat where "NSFLAG = 11"
definition NS_NONAME :: BYTE where "NS_NONAME = 0x80"


text \<open>
  \<^verbatim>\<open>gen_numname\<close>. The inner loop of the hash takes the 16 bits of one character, the
  outer loop the characters up to the terminator.
\<close>

definition crc_bit :: "DWORD \<times> WCHAR \<Rightarrow> DWORD \<times> WCHAR" where
  "crc_bit = (\<lambda>(sreg, wc).
     let sreg = push_bit 1 sreg + ucast (wc AND 1);
         wc = drop_bit 1 wc;
         sreg = (if sreg AND 0x10000 \<noteq> 0 then sreg XOR 0x11021 else sreg)
     in (sreg, wc))"

primrec crc_bits :: "nat \<Rightarrow> DWORD \<times> WCHAR \<Rightarrow> DWORD \<times> WCHAR" where
  "crc_bits 0 s = s"
| "crc_bits (Suc k) s = crc_bits k (crc_bit s)"

fun lfn_hash :: "DWORD \<Rightarrow> WCHAR list \<Rightarrow> DWORD" where
  "lfn_hash sreg [] = sreg"
| "lfn_hash sreg (wc # lfn) =
     (if wc = 0 then sreg else lfn_hash (fst (crc_bits 16 (sreg, wc))) lfn)"














section \<open>Opening a file\<close>

text \<open>
  \<^verbatim>\<open>f_open\<close> in the read/write configuration with the open-file registry. Three callees
  are not modelled and come as parameters: \<^verbatim>\<open>mount_volume\<close>, as the function
  \<open>mount\<close> that yields its result with the volume object and the host as it leaves
  them; \<^verbatim>\<open>follow_path\<close>, as the function \<open>follow\<close> that yields its result, the
  directory object \<open>dj\<close>, the offset \<open>dir\<close> of the entry found in the window
  (\<open>dj.dir\<close>), the volume object and the host; and \<^verbatim>\<open>dir_register\<close> as called on
  the directory object, \<open>reg\<close>, in the same way. \<open>alloc\<close> is the sector buffer that \<^verbatim>\<open>ff_memalloc\<close> gives, \<open>None\<close> when it
  fails, and \<open>fsp\<close> the address of the volume object. \<open>fp\<close> is \<open>None\<close> for a null
  pointer; otherwise it is the caller's object with whatever it holds.
\<close>

definition DIR_CrtTime :: nat where "DIR_CrtTime = 14"

text \<open>The check of the object found: the origin directory, then the registry.\<close>

definition f_open_check :: "FILESEM list \<Rightarrow> DIR \<Rightarrow> BYTE \<Rightarrow> FRESULT \<Rightarrow> FRESULT" where
  "f_open_check Files dj mode res =
     (if res = FR_OK then
        (if fn dj ! NSFLAG AND NS_NONAME \<noteq> 0 then FR_INVALID_NAME
         else chk_share Files dj (open_acc mode))
      else res)"

text \<open>The block that truncates the file in overwrite mode.\<close>

definition f_open_truncate ::
  "FATFS \<Rightarrow> host \<Rightarrow> nat \<Rightarrow> (FRESULT \<times> FATFS \<times> host) option" where
  "f_open_truncate fs d dir =
     (let tm = fattime d;
          w = win fs;
          w = (if time_status d = SYSTEM_TIME_ENABLE
               then st_dword (st_dword w (dir + DIR_CrtTime) tm) (dir + DIR_ModTime) tm
               else if time_status d = SYSTEM_TIME_DISABLE
               then st_dword (st_dword w (dir + DIR_CrtTime) 0) (dir + DIR_ModTime) 0
               else w);
          w = w(dir + DIR_Attr := AM_ARC);
          cl = ld_clust fs w dir;
          w = st_clust fs w dir 0;
          w = st_dword w (dir + DIR_FileSize) 0;
          fs = fs\<lparr>win := w, wflag := 1\<rparr>
      in if cl \<noteq> 0 then
           (let sc = winsect fs in
            case remove_chain fs d cl 0 of
              None \<Rightarrow> None
            | Some (res, fs1, d1) \<Rightarrow>
                if res = FR_OK then
                  (case move_window fs1 d1 sc of
                     (res, fs2, d2) \<Rightarrow> Some (res, fs2\<lparr>last_clst := cl - 1\<rparr>, d2))
                else Some (res, fs1, d1))
         else Some (FR_OK, fs, d))"

text \<open>
  The branch taken when one of the create flags is given. It yields the result, the
  mode, and the objects.
\<close>

definition f_open_create ::
  "FILESEM list \<Rightarrow> (DIR \<Rightarrow> nat \<Rightarrow> FATFS \<Rightarrow> host \<Rightarrow> FRESULT \<times> DIR \<times> nat \<times> FATFS \<times> host)
     \<Rightarrow> FRESULT \<Rightarrow> BYTE \<Rightarrow> DIR \<Rightarrow> nat \<Rightarrow> FATFS \<Rightarrow> host
     \<Rightarrow> (FRESULT \<times> BYTE \<times> DIR \<times> nat \<times> FATFS \<times> host) option" where
  "f_open_create Files reg res mode dj dir fs d =
     (case
        (if res \<noteq> FR_OK then
           (case
              (if res = FR_NO_FILE \<and> mode AND FA_OPEN_ALWAYS \<noteq> 0 then
                 (if enq_share Files then reg dj dir fs d
                  else (FR_TOO_MANY_OPEN_FILES, dj, dir, fs, d))
               else (res, dj, dir, fs, d)) of
              (res, dj, dir, fs, d) \<Rightarrow>
                (res, if res = FR_OK then mode OR FA_CREATE_ALWAYS else mode, dj, dir, fs, d))
         else
           (if attr (obj dj) AND (AM_RDO OR AM_DIR) \<noteq> 0 then (FR_IS_DIR, mode, dj, dir, fs, d)
            else if mode AND FA_CREATE_NEW \<noteq> 0 then (FR_EXIST, mode, dj, dir, fs, d)
            else (res, mode, dj, dir, fs, d))) of
        (res, mode, dj, dir, fs, d) \<Rightarrow>
          if res = FR_OK \<and> mode AND FA_CREATE_ALWAYS \<noteq> 0 then
            (case f_open_truncate fs d dir of
               None \<Rightarrow> None
             | Some (res, fs1, d1) \<Rightarrow> Some (res, mode, dj, dir, fs1, d1))
          else Some (res, mode, dj, dir, fs, d))"

text \<open>The branch that opens an existing file.\<close>

definition f_open_existing :: "FRESULT \<Rightarrow> BYTE \<Rightarrow> DIR \<Rightarrow> FRESULT" where
  "f_open_existing res mode dj =
     (if res = FR_OK then
        (if attr (obj dj) AND AM_DIR \<noteq> 0 then FR_IS_DIR
         else if mode AND FA_WRITE \<noteq> 0 \<and> attr (obj dj) AND AM_RDO \<noteq> 0 then FR_DENIED
         else res)
      else res)"

text \<open>
  The loop that follows the cluster chain to the end of the file,
  \<^verbatim>\<open>for (ofs = fp->obj.objsize; res == FR_OK && ofs > bcs; ofs -= bcs)\<close>.
\<close>

partial_function (option) f_open_seek ::
  "DWORD \<Rightarrow> FRESULT \<Rightarrow> FSIZE_t \<Rightarrow> DWORD \<Rightarrow> FATFS \<Rightarrow> host
     \<Rightarrow> (FRESULT \<times> FSIZE_t \<times> DWORD \<times> FATFS \<times> host) option" where
  "f_open_seek bcs res ofs' clst fs d =
     (if res = FR_OK \<and> ofs' > bcs then
        (case get_fat fs d clst of
           (clst, fs1, d1) \<Rightarrow>
             (let res = (if clst \<le> 1 then FR_INT_ERR else res);
                  res = (if clst = 0xFFFFFFFF then FR_DISK_ERR else res)
              in f_open_seek bcs res (ofs' - bcs) clst fs1 d1))
      else Some (res, ofs', clst, fs, d))"

text \<open>The seek to the end of the file when \<^verbatim>\<open>FA_SEEKEND\<close> is given.\<close>

definition f_open_seekend ::
  "BYTE \<Rightarrow> FIL \<Rightarrow> FATFS \<Rightarrow> host \<Rightarrow> (FRESULT \<times> FIL \<times> FATFS \<times> host) option" where
  "f_open_seekend mode fp fs d =
     (if mode AND FA_SEEKEND \<noteq> 0 \<and> objsize (obj fp) > 0 then
        (let fp = fp\<lparr>fptr := objsize (obj fp)\<rparr>;
             bcs = ucast (csize fs) * SS fs
         in case f_open_seek bcs FR_OK (objsize (obj fp)) (sclust (obj fp)) fs d of
              None \<Rightarrow> None
            | Some (res, ofs', clst, fs1, d1) \<Rightarrow>
                (let fp = fp\<lparr>clust := clst\<rparr> in
                 if res = FR_OK \<and> ofs' mod SS fs1 \<noteq> 0 then
                   (let sc = clst2sect fs1 clst in
                    if sc = 0 then Some (FR_INT_ERR, fp, fs1, d1)
                    else
                      (let fp = fp\<lparr>sect := sc + ofs' div SS fs1\<rparr> in
                       case disk_read d1 (sect fp) 1 of
                         (None, d2) \<Rightarrow> Some (FR_DISK_ERR, fp, fs1, d2)
                       | (Some bs, d2) \<Rightarrow> Some (res, fp\<lparr>buf := bs ! 0\<rparr>, fs1, d2)))
                 else Some (res, fp, fs1, d1)))
      else Some (FR_OK, fp, fs, d))"

text \<open>
  \<^verbatim>\<open>f_open\<close>. When the sector buffer cannot be allocated the function leaves at once,
  after \<^verbatim>\<open>dec_share\<close>, with the object it has set up. On every other failure
  \<^verbatim>\<open>dec_share\<close> is called with the lock identifier that the object holds, and the
  object is invalidated.
\<close>

definition f_open ::
  "FILESEM list \<Rightarrow> FATFS \<Rightarrow> host \<Rightarrow> FIL option \<Rightarrow> BYTE
     \<Rightarrow> (FATFS \<Rightarrow> host \<Rightarrow> FRESULT \<times> FATFS \<times> host)
     \<Rightarrow> (FATFS \<Rightarrow> host \<Rightarrow> FRESULT \<times> DIR \<times> nat \<times> FATFS \<times> host)
     \<Rightarrow> (DIR \<Rightarrow> nat \<Rightarrow> FATFS \<Rightarrow> host \<Rightarrow> FRESULT \<times> DIR \<times> nat \<times> FATFS \<times> host)
     \<Rightarrow> buffer option \<Rightarrow> nat
     \<Rightarrow> (FRESULT \<times> FIL option \<times> FILESEM list \<times> FATFS \<times> host) option" where
  "f_open Files fs d fp mode mount follow reg alloc fsp =
     (case fp of
        None \<Rightarrow> Some (FR_INVALID_OBJECT, None, Files, fs, d)
      | Some fp \<Rightarrow>
          (let mode = mode AND (FA_READ OR FA_WRITE OR FA_CREATE_ALWAYS OR FA_CREATE_NEW
                                OR FA_OPEN_ALWAYS OR FA_OPEN_APPEND OR FA_SEEKEND)
           in case mount fs d of
             (mres, fs, d) \<Rightarrow>
               if mres = FR_OK then
                 (case follow fs d of
                    (res, dj, dir, fs, d) \<Rightarrow>
                      (let res = f_open_check Files dj mode res in
                       case
                         (if mode AND (FA_CREATE_ALWAYS OR FA_OPEN_ALWAYS OR FA_CREATE_NEW) \<noteq> 0
                          then f_open_create Files reg res mode dj dir fs d
                          else Some (f_open_existing res mode dj, mode, dj, dir, fs, d)) of
                         None \<Rightarrow> None
                       | Some (res, mode, dj, dir, fs, d) \<Rightarrow>
                           (case
                              (if res = FR_OK then
                                 (let mode = (if mode AND FA_CREATE_ALWAYS \<noteq> 0
                                              then mode OR FA_MODIFIED else mode);
                                      fp = fp\<lparr>dir_sect := winsect fs, dir_ptr := dir\<rparr>
                                  in case inc_share Files dj (open_acc mode) of
                                       (l, Files) \<Rightarrow>
                                         (if l = 0 then FR_INT_ERR else res, mode,
                                          fp\<lparr>obj := (obj fp)\<lparr>lockid := l\<rparr>\<rparr>, Files))
                               else (res, mode, fp, Files)) of
                              (res, mode, fp, Files) \<Rightarrow>
                                if res = FR_OK then
                                  (let fp = fp\<lparr>obj := (obj fp)\<lparr>sclust := ld_clust fs (win fs) dir\<rparr>\<rparr>;
                                       fp = fp\<lparr>obj := (obj fp)\<lparr>objsize :=
                                              ld_dword (win fs) (dir + DIR_FileSize)\<rparr>\<rparr>;
                                       fp = fp\<lparr>cltbl := None\<rparr>;
                                       fp = fp\<lparr>obj := (obj fp)\<lparr>obj_fs := fsp, obj_id := fs_id fs\<rparr>\<rparr>;
                                       fp = fp\<lparr>flag := mode, err := FR_OK, sect := 0, fptr := 0\<rparr>
                                   in case alloc of
                                        None \<Rightarrow>
                                          Some (FR_NOT_ENOUGH_CORE, Some fp,
                                                snd (dec_share Files (lockid (obj fp))), fs, d)
                                      | Some b \<Rightarrow>
                                          (case f_open_seekend mode (fp\<lparr>buf := b\<rparr>) fs d of
                                             None \<Rightarrow> None
                                           | Some (res, fp, fs, d) \<Rightarrow>
                                               if res \<noteq> FR_OK then
                                                 Some (res, Some (fp\<lparr>obj := (obj fp)\<lparr>obj_fs := 0\<rparr>\<rparr>),
                                                       snd (dec_share Files (lockid (obj fp))), fs, d)
                                               else Some (res, Some fp, Files, fs, d)))
                                else
                                  Some (res, Some (fp\<lparr>obj := (obj fp)\<lparr>obj_fs := 0\<rparr>\<rparr>),
                                        snd (dec_share Files (lockid (obj fp))), fs, d))))
               else Some (mres, Some (fp\<lparr>obj := (obj fp)\<lparr>obj_fs := 0\<rparr>\<rparr>), Files, fs, d)))"


section \<open>Concrete volumes and hosts\<close>

text \<open>
  A host whose medium is blank and on which no request fails, and a small FAT32 volume
  (512-byte sectors, 98 clusters, FAT at sector 32) with the first FAT sector resident
  in the window; the cell of cluster 5 holds \<open>0x50000007\<close>.
\<close>

definition host_demo :: host where
  "host_demo = \<lparr>media = (\<lambda>s i. 0), requests = 0, faulty = (\<lambda>k. False),
                 noinit = False, fattime = 0, time_status = SYSTEM_TIME_ENABLE\<rparr>"

definition fat32_demo :: FATFS where
  "fat32_demo = \<lparr>fs_type = FS_FAT32, n_fats = 2, wflag = 0, fsi_flag = 0, fs_id = 1,
     n_rootdir = 0, csize = 8, ssize = 512, last_clst = 2, free_clst = 90, n_fatent = 100,
     fsize = 1, volbase = 0, fatbase = 32, dirbase = 2, database = 34, winsect = 32,
     win = (\<lambda>i. if i = 20 then 0x07 else if i = 23 then 0x50 else 0)\<rparr>"


section \<open>Successive opens of one object\<close>

text \<open>
  \<open>read_opens n\<close>: the locking steps of \<open>n\<close> successive read-mode \<^verbatim>\<open>f_open\<close> calls on
  the object that \<open>dp\<close> points at, none of them closed in between. Each call checks with
  \<^verbatim>\<open>chk_share\<close> and then registers with \<^verbatim>\<open>inc_share\<close>, both with access 0; \<open>None\<close> when
  one of the opens is refused.
\<close>

fun read_opens :: "nat \<Rightarrow> FILESEM list \<Rightarrow> DIR \<Rightarrow> FILESEM list option" where
  "read_opens 0 Files dp = Some Files"
| "read_opens (Suc n) Files dp =
     (if chk_share Files dp 0 = FR_OK then
        (case inc_share Files dp 0 of
           (l, Files') \<Rightarrow> if l = 0 then None else read_opens n Files' dp)
      else None)"

definition dp_demo :: DIR where
  "dp_demo = \<lparr>obj = \<lparr>obj_fs = 1, obj_id = 1, attr = 0x20, sclust = 0, objsize = 0, lockid = 0\<rparr>,
              dptr = 0x40, fn = []\<rparr>"

definition sem_demo :: "UINT \<Rightarrow> FILESEM" where
  "sem_demo n = \<lparr>sem_fs = 1, clu = 0, ofs = 0x40, ctr = n\<rparr>"

definition sem_blank :: FILESEM where
  "sem_blank = \<lparr>sem_fs = 0, clu = 0, ofs = 0, ctr = 0\<rparr>"


section \<open>A concrete file\<close>

text \<open>
  A FAT32 volume with one sector per cluster whose first FAT sector is resident in the
  window: cluster 3 links to cluster 4, which ends the chain. \<open>fil_demo\<close> is a file of
  two clusters (1024 bytes) open for reading, with start cluster 3 and the file pointer
  at the top. On \<open>host_fail1\<close> the second request (number 1) fails and no other.
\<close>

definition vol_demo :: FATFS where
  "vol_demo = \<lparr>fs_type = FS_FAT32, n_fats = 1, wflag = 0, fsi_flag = 0, fs_id = 1,
     n_rootdir = 0, csize = 1, ssize = 512, last_clst = 4, free_clst = 96, n_fatent = 100,
     fsize = 1, volbase = 0, fatbase = 32, dirbase = 2, database = 34, winsect = 32,
     win = (\<lambda>i. if i = 12 then 0x04
                 else if i = 16 \<or> i = 17 \<or> i = 18 then 0xFF
                 else if i = 19 then 0x0F else 0)\<rparr>"

definition fil_demo :: FIL where
  "fil_demo = \<lparr>obj = \<lparr>obj_fs = 1, obj_id = 1, attr = 0x20, sclust = 3, objsize = 1024,
                       lockid = 1\<rparr>,
                flag = FA_READ, err = FR_OK, fptr = 0, clust = 0, sect = 0,
                dir_sect = 33, dir_ptr = 0, cltbl = None, buf = (\<lambda>i. 0)\<rparr>"

definition host_fail1 :: host where
  "host_fail1 = \<lparr>media = (\<lambda>s i. 0), requests = 0, faulty = (\<lambda>k. k = 1),
                   noinit = False, fattime = 0, time_status = SYSTEM_TIME_ENABLE\<rparr>"

text \<open>
  The same file as a handle that is open for reading and writing, has been modified, and
  has a disk error latched; and as a handle open for reading and writing whose file
  pointer stands at the top of the second cluster.
\<close>

definition fil_failed :: FIL where
  "fil_failed = fil_demo\<lparr>flag := FA_READ OR FA_WRITE OR FA_MODIFIED, err := FR_DISK_ERR\<rparr>"

definition fil_mid :: FIL where
  "fil_mid = fil_demo\<lparr>flag := FA_READ OR FA_WRITE, fptr := 512, clust := 3\<rparr>"


section \<open>A concrete boot sector\<close>





section \<open>A concrete long name\<close>

text \<open>
  The long name \<^verbatim>\<open>longfilename.txt\<close> and its short name in directory form,
  \<^verbatim>\<open>LONGFILETXT\<close> with the flags \<^verbatim>\<open>NS_LOSS\<close> and \<^verbatim>\<open>NS_LFN\<close>. \<open>dir_full\<close> is a
  directory in which every name searched for is found, \<open>dir_two\<close> one that holds the
  short names \<^verbatim>\<open>LONGFI~1\<close> and \<^verbatim>\<open>LONGFI~2\<close>, and \<open>store_demo\<close> stores the entries
  without an error; the state of the directory plays no part in them.
\<close>

definition lfn_demo :: "WCHAR list" where
  "lfn_demo = [0x6C, 0x6F, 0x6E, 0x67, 0x66, 0x69, 0x6C, 0x65, 0x6E, 0x61, 0x6D, 0x65,
               0x2E, 0x74, 0x78, 0x74]"






section \<open>Concrete objects to open\<close>






section \<open>Basic facts\<close>

lemmas flag_defs =
  FA_READ_def FA_WRITE_def FA_CREATE_NEW_def FA_CREATE_ALWAYS_def FA_OPEN_ALWAYS_def
  FA_OPEN_APPEND_def FA_SEEKEND_def FA_MODIFIED_def FA_DIRTY_def
  AM_RDO_def AM_DIR_def AM_ARC_def FS_FAT12_def FS_FAT16_def FS_FAT32_def

subsection \<open>The codec stores what it loads\<close>

lemma ld_st_dword: "ld_dword (st_dword b p v) p = v"
  unfolding ld_dword_def st_dword_def Let_def
proof (rule bit_word_eqI, goal_cases)
  case (1 n)
  then have n: "n < 32" by simp
  consider "n < 8" | "8 \<le> n" "n < 16" | "16 \<le> n" "n < 24" | "24 \<le> n"
    using n by linarith
  then show ?case
    using n by cases (auto simp: bit_simps)
qed

lemma ld_st_word: "ld_word (st_word b p v) p = v"
  unfolding ld_word_def st_word_def Let_def
  by (rule bit_word_eqI) (auto simp: bit_simps)

lemma low28_is_mask: "(0x0FFFFFFF :: 32 word) = mask 28"
  by (simp add: mask_eq_exp_minus_1)

lemma top4_is_mask: "(0xF0000000 :: 32 word) = NOT (mask 28)"
  by (simp add: mask_eq_exp_minus_1)

lemma merge_low28:
  "((v AND 0x0FFFFFFF) OR (c AND 0xF0000000)) AND 0x0FFFFFFF = (v AND 0x0FFFFFFF :: 32 word)"
  unfolding low28_is_mask top4_is_mask by (rule bit_word_eqI) (auto simp: bit_simps)

lemma merge_top4:
  "((v AND 0x0FFFFFFF) OR (c AND 0xF0000000)) AND 0xF0000000 = (c AND 0xF0000000 :: 32 word)"
  unfolding low28_is_mask top4_is_mask by (rule bit_word_eqI) (auto simp: bit_simps)

subsection \<open>What the window operations leave alone\<close>

lemma sync_window_fields:
  assumes "sync_window fs d = (r, fs', d')"
  shows "fs' = fs \<or> fs' = fs\<lparr>wflag := 0\<rparr>"
  using assms by (auto simp: sync_window_def Let_def split: if_splits prod.splits bool.splits)

lemma move_window_fields:
  assumes "move_window fs d s = (r, fs', d')"
  shows "fs_type fs' = fs_type fs" "ssize fs' = ssize fs" "n_fatent fs' = n_fatent fs"
    "fatbase fs' = fatbase fs" "fsize fs' = fsize fs" "n_fats fs' = n_fats fs"
    "csize fs' = csize fs" "database fs' = database fs"
    "last_clst fs' = last_clst fs" "free_clst fs' = free_clst fs" "fsi_flag fs' = fsi_flag fs"
  using assms sync_window_fields [of fs d]
  by (auto simp: move_window_def split: if_splits prod.splits option.splits)

lemma move_window_ok_winsect:
  assumes "move_window fs d s = (FR_OK, fs', d')"
  shows "winsect fs' = s"
  using assms sync_window_fields [of fs d]
  by (auto simp: move_window_def split: if_splits prod.splits option.splits)

lemma move_window_resident:
  "winsect fs = s \<Longrightarrow> move_window fs d s = (FR_OK, fs, d)"
  by (simp add: move_window_def)


section \<open>FAT32 cells keep their reserved bits\<close>

text \<open>
  Claim C4. On a FAT32 volume, for a valid cluster number and when the sector of the
  cell can be brought into the window, \<^verbatim>\<open>put_fat\<close> stores the low 28 bits of the value
  and keeps the top four bits that the 32-bit cell had, and \<^verbatim>\<open>get_fat\<close> returns the
  cell with the top four bits masked off, before the update as well as after it.
\<close>

theorem fat32_cell_update:
  assumes ty: "fs_type fs = FS_FAT32"
    and lo: "2 \<le> clst" and hi: "clst < n_fatent fs"
    and mv: "move_window fs d (fatbase fs + clst div (SS fs div 4)) = (FR_OK, fs1, d1)"
    and p: "p = unat (clst * 4 mod SS fs)"
    and fs2: "fs2 = fs1\<lparr>win := st_dword (win fs1) p
                 ((val AND 0x0FFFFFFF) OR (ld_dword (win fs1) p AND 0xF0000000)), wflag := 1\<rparr>"
  shows "put_fat fs d clst val = (FR_OK, fs2, d1)
       \<and> ld_dword (win fs2) p AND 0x0FFFFFFF = val AND 0x0FFFFFFF
       \<and> ld_dword (win fs2) p AND 0xF0000000 = ld_dword (win fs1) p AND 0xF0000000
       \<and> get_fat fs d clst = (ld_dword (win fs1) p AND 0x0FFFFFFF, fs1, d1)
       \<and> get_fat fs2 d1 clst = (val AND 0x0FFFFFFF, fs2, d1)"
proof -
  note f = move_window_fields [OF mv]
  have ss: "SS fs1 = SS fs" "SS fs2 = SS fs" by (simp_all add: SS_def f fs2)
  have ty12: "fs_type fs \<noteq> FS_FAT12" "fs_type fs \<noteq> FS_FAT16"
    using ty by (simp_all add: flag_defs)
  have rng: "\<not> (clst < 2 \<or> n_fatent fs \<le> clst)" using lo hi by (simp add: not_less)
  have put: "put_fat fs d clst val = (FR_OK, fs2, d1)"
    using lo hi ty ty12 mv by (simp add: put_fat_def Let_def ss fs2 p)
  have cell: "ld_dword (win fs2) p = (val AND 0x0FFFFFFF) OR (ld_dword (win fs1) p AND 0xF0000000)"
    by (simp add: fs2 ld_st_dword)
  have get1: "get_fat fs d clst = (ld_dword (win fs1) p AND 0x0FFFFFFF, fs1, d1)"
    using rng ty ty12 mv by (simp add: get_fat_def ss p)
  have same: "winsect fs2 = winsect fs1" "fatbase fs2 = fatbase fs"
    by (simp_all add: fs2 f)
  have res: "winsect fs2 = fatbase fs2 + clst div (SS fs2 div 4)"
    using move_window_ok_winsect [OF mv] by (simp add: same ss)
  have mv2: "move_window fs2 d1 (fatbase fs2 + clst div (SS fs2 div 4)) = (FR_OK, fs2, d1)"
    by (rule move_window_resident) (simp add: res)
  have rng2: "\<not> (clst < 2 \<or> n_fatent fs2 \<le> clst)" using rng by (simp add: fs2 f)
  have ty2: "fs_type fs2 = FS_FAT32" "fs_type fs2 \<noteq> FS_FAT12" "fs_type fs2 \<noteq> FS_FAT16"
    using ty ty12 by (simp_all add: fs2 f)
  have get2: "get_fat fs2 d1 clst = (val AND 0x0FFFFFFF, fs2, d1)"
    using rng2 ty2 mv2 cell by (simp add: get_fat_def ss merge_low28 p [symmetric])
  show ?thesis using put cell get1 get2 by (simp add: merge_low28 merge_top4)
qed

text \<open>
  The theorem at work: cluster 5 of a FAT32 volume whose cell holds \<open>0x50000007\<close>, with
  its FAT sector resident in the window. Writing \<open>0xFFFFFFFF\<close> leaves \<open>0x5FFFFFFF\<close> in
  the cell, which \<^verbatim>\<open>get_fat\<close> reads as \<open>0x0FFFFFFF\<close>.
\<close>

theorem fat32_cell_update_witness:
  "fs_type fat32_demo = FS_FAT32 \<and> (2 :: DWORD) \<le> 5 \<and> 5 < n_fatent fat32_demo
   \<and> move_window fat32_demo host_demo (fatbase fat32_demo + 5 div (SS fat32_demo div 4))
       = (FR_OK, fat32_demo, host_demo)
   \<and> put_fat fat32_demo host_demo 5 0xFFFFFFFF
       = (FR_OK, fat32_demo\<lparr>win := st_dword (win fat32_demo) 20 0x5FFFFFFF, wflag := 1\<rparr>,
          host_demo)
   \<and> get_fat fat32_demo host_demo 5 = (7, fat32_demo, host_demo)
   \<and> get_fat (fat32_demo\<lparr>win := st_dword (win fat32_demo) 20 0x5FFFFFFF, wflag := 1\<rparr>)
        host_demo 5
       = (0x0FFFFFFF, fat32_demo\<lparr>win := st_dword (win fat32_demo) 20 0x5FFFFFFF, wflag := 1\<rparr>,
          host_demo)"
proof -
  have h1: "fs_type fat32_demo = FS_FAT32" by (simp add: fat32_demo_def)
  have h2: "(2 :: DWORD) \<le> 5" by simp
  have h3: "(5 :: DWORD) < n_fatent fat32_demo" by (simp add: fat32_demo_def)
  have h4: "move_window fat32_demo host_demo (fatbase fat32_demo + 5 div (SS fat32_demo div 4))
              = (FR_OK, fat32_demo, host_demo)"
    by (rule move_window_resident) (simp add: fat32_demo_def SS_def)
  have p: "(20 :: nat) = unat ((5 :: DWORD) * 4 mod SS fat32_demo)"
    by (simp add: fat32_demo_def SS_def)
  have old: "ld_dword (win fat32_demo) 20 = 0x50000007"
    by (simp add: fat32_demo_def ld_dword_def)
  have new: "((0xFFFFFFFF :: DWORD) AND 0x0FFFFFFF) OR (0x50000007 AND 0xF0000000) = 0x5FFFFFFF"
    by simp
  show ?thesis
    using fat32_cell_update [OF h1 h2 h3 h4 p refl, of "0xFFFFFFFF"] h1 h2 h3 h4
    by (simp add: old new)
qed


section \<open>Allocating the first cluster of a chain\<close>

lemma move_window_n_fatent:
  "move_window fs d s = (r, fs', d') \<Longrightarrow> n_fatent fs' = n_fatent fs"
  by (rule move_window_fields(3))

lemma get_fat_n_fatent:
  assumes "get_fat fs d c = (v, fs', d')"
  shows "n_fatent fs' = n_fatent fs"
  using assms
  by (auto simp: get_fat_def Let_def split: if_splits prod.splits dest!: move_window_n_fatent)

lemma unat_succ_below:
  fixes a b :: "32 word"
  assumes "a < b"
  shows "unat (a + 1) = Suc (unat a)"
proof -
  have "unat a < unat b" using assms by (simp add: word_less_nat_alt)
  moreover have "unat b < 2 ^ 32" using unsigned_less [of b, where ?'a = nat] by simp
  ultimately have "unat a + unat (1 :: 32 word) < 2 ^ LENGTH(32)" by simp
  then have "unat (a + 1) = unat a + unat (1 :: 32 word)" by (simp only: unat_add_lem)
  then show ?thesis by simp
qed

text \<open>
  The scan loop reads exactly the clusters of \<open>scan_order\<close>, in that order, and ends as
  \<open>first_free\<close> does. First the stretch after the wrap-around (from below the start
  cluster up to it), then the stretch before it, then the whole scan.
\<close>

lemma scan_after_wrap:
  assumes "unat ncl < unat scl" and "scl < n_fatent fs"
  shows "create_chain_loop fs d scl ncl
           = Some (first_free fs d (map of_nat [Suc (unat ncl) ..< Suc (unat scl)]))"
  using assms
proof (induction "unat scl - unat ncl" arbitrary: ncl fs d rule: less_induct)
  case less
  have lt: "ncl < scl" using less.prems(1) by (simp add: word_less_nat_alt)
  have u: "unat (ncl + 1) = Suc (unat ncl)" by (rule unat_succ_below [OF lt])
  have le: "ncl + 1 \<le> scl" using less.prems(1) u by (simp add: word_le_nat_alt)
  have nowrap: "\<not> n_fatent fs \<le> ncl + 1" using le less.prems(2) by simp
  have lst: "[Suc (unat ncl) ..< Suc (unat scl)]
               = Suc (unat ncl) # [Suc (Suc (unat ncl)) ..< Suc (unat scl)]"
    using less.prems(1) by (simp add: upt_conv_Cons del: upt_Suc)
  have hd: "(of_nat (Suc (unat ncl)) :: 32 word) = ncl + 1" by simp
  obtain cs fs1 d1 where g: "get_fat fs d (ncl + 1) = (cs, fs1, d1)"
    by (cases "get_fat fs d (ncl + 1)") auto
  have n1: "n_fatent fs1 = n_fatent fs" by (rule get_fat_n_fatent [OF g])
  have unf: "create_chain_loop fs d scl ncl =
        (if cs = 0 then Some (Next (ncl + 1), fs1, d1)
         else if cs = 1 \<or> cs = 0xFFFFFFFF then Some (Return cs, fs1, d1)
         else if ncl + 1 = scl then Some (Return 0, fs1, d1)
         else create_chain_loop fs1 d1 scl (ncl + 1))"
    by (subst create_chain_loop.simps) (simp add: nowrap g)
  have ff: "first_free fs d (map of_nat [Suc (unat ncl) ..< Suc (unat scl)]) =
        (if cs = 0 then (Next (ncl + 1), fs1, d1)
         else if cs = 1 \<or> cs = 0xFFFFFFFF then (Return cs, fs1, d1)
         else first_free fs1 d1 (map of_nat [Suc (Suc (unat ncl)) ..< Suc (unat scl)]))"
    by (simp only: lst list.map hd first_free.simps g prod.case)
  show ?case
  proof (cases "ncl + 1 = scl")
    case True
    then have "Suc (unat ncl) = unat scl" using u by simp
    then have "[Suc (Suc (unat ncl)) ..< Suc (unat scl)] = []" by simp
    then show ?thesis using True unf ff by simp
  next
    case ne: False
    have lt': "unat (ncl + 1) < unat scl"
      using le ne by (metis le_neq_trans word_less_nat_alt)
    have m: "unat scl - unat (ncl + 1) < unat scl - unat ncl" using less.prems(1) u by simp
    have sc: "scl < n_fatent fs1" using less.prems(2) n1 by simp
    have ih: "create_chain_loop fs1 d1 scl (ncl + 1)
                = Some (first_free fs1 d1 (map of_nat [Suc (unat (ncl + 1)) ..< Suc (unat scl)]))"
      by (rule less.hyps [OF m lt' sc])
    show ?thesis using ne unf ff ih by (simp add: u)
  qed
qed


lemma scan_before_wrap:
  assumes "unat scl \<le> unat ncl" and "ncl < n_fatent fs"
    and "scl = 1 \<or> (2 \<le> scl \<and> scl < n_fatent fs)"
  shows "create_chain_loop fs d scl ncl
           = Some (first_free fs d
                (map of_nat ([Suc (unat ncl) ..< unat (n_fatent fs)] @ [2 ..< Suc (unat scl)])))"
  using assms
proof (induction "unat (n_fatent fs) - unat ncl" arbitrary: ncl fs d rule: less_induct)
  case less
  have u: "unat (ncl + 1) = Suc (unat ncl)" by (rule unat_succ_below [OF less.prems(2)])
  have nlt: "unat ncl < unat (n_fatent fs)" using less.prems(2) by (simp add: word_less_nat_alt)
  show ?case
  proof (cases "n_fatent fs \<le> ncl + 1")
    case wrap: True
    then have e: "Suc (unat ncl) = unat (n_fatent fs)"
      using nlt u by (simp add: word_le_nat_alt)
    then have l1: "[Suc (unat ncl) ..< unat (n_fatent fs)] = []" by simp
    show ?thesis
    proof (cases "scl = 1")
      case True
      then show ?thesis using wrap
        by (subst create_chain_loop.simps) (simp add: l1)
    next
      case False
      then have s2: "2 \<le> scl" and sn: "scl < n_fatent fs" using less.prems(3) by simp_all
      have ns: "\<not> 2 > scl" using s2 by simp
      have us: "2 \<le> unat scl" using s2 by (simp add: word_le_nat_alt)
      have lst: "[2 ..< Suc (unat scl)] = 2 # [3 ..< Suc (unat scl)]"
        using us by (simp add: upt_conv_Cons del: upt_Suc)
      obtain cs fs1 d1 where g: "get_fat fs d 2 = (cs, fs1, d1)"
        by (cases "get_fat fs d 2") auto
      have n1: "n_fatent fs1 = n_fatent fs" by (rule get_fat_n_fatent [OF g])
      have unf: "create_chain_loop fs d scl ncl =
          (if cs = 0 then Some (Next 2, fs1, d1)
           else if cs = 1 \<or> cs = 0xFFFFFFFF then Some (Return cs, fs1, d1)
           else if 2 = scl then Some (Return 0, fs1, d1)
           else create_chain_loop fs1 d1 scl 2)"
        using wrap ns by (subst create_chain_loop.simps) (simp add: g)
      have ff: "first_free fs d (map of_nat ([Suc (unat ncl) ..< unat (n_fatent fs)] @ [2 ..< Suc (unat scl)])) =
          (if cs = 0 then (Next 2, fs1, d1)
           else if cs = 1 \<or> cs = 0xFFFFFFFF then (Return cs, fs1, d1)
           else first_free fs1 d1 (map of_nat [3 ..< Suc (unat scl)]))"
        by (simp add: l1 lst g del: upt_Suc)
      show ?thesis
      proof (cases "2 = scl")
        case True
        then have "unat scl = 2" by auto
        then have "[3 ..< Suc (unat scl)] = []" by simp
        then show ?thesis using True unf ff by simp
      next
        case ne: False
        have lt2: "unat (2 :: 32 word) < unat scl"
          using s2 ne by (metis le_neq_trans word_less_nat_alt)
        have sc: "scl < n_fatent fs1" using sn n1 by simp
        have "create_chain_loop fs1 d1 scl 2
                = Some (first_free fs1 d1 (map of_nat [Suc (unat (2 :: 32 word)) ..< Suc (unat scl)]))"
          by (rule scan_after_wrap [OF lt2 sc])
        then have ih: "create_chain_loop fs1 d1 scl 2
                = Some (first_free fs1 d1 (map of_nat [3 ..< Suc (unat scl)]))"
          by (simp add: numeral_3_eq_3 del: upt_Suc)
        show ?thesis using ne unf ff ih by simp
      qed
    qed
  next
    case nowrap: False
    then have lt1: "ncl + 1 < n_fatent fs" by simp
    then have nlt1: "Suc (unat ncl) < unat (n_fatent fs)" using u by (simp add: word_less_nat_alt)
    have lst: "[Suc (unat ncl) ..< unat (n_fatent fs)]
                 = Suc (unat ncl) # [Suc (Suc (unat ncl)) ..< unat (n_fatent fs)]"
      using nlt1 by (simp add: upt_conv_Cons)
    have hd: "(of_nat (Suc (unat ncl)) :: 32 word) = ncl + 1" by simp
    obtain cs fs1 d1 where g: "get_fat fs d (ncl + 1) = (cs, fs1, d1)"
      by (cases "get_fat fs d (ncl + 1)") auto
    have n1: "n_fatent fs1 = n_fatent fs" by (rule get_fat_n_fatent [OF g])
    have ne: "ncl + 1 \<noteq> scl"
      using less.prems(1) u by auto
    have unf: "create_chain_loop fs d scl ncl =
          (if cs = 0 then Some (Next (ncl + 1), fs1, d1)
           else if cs = 1 \<or> cs = 0xFFFFFFFF then Some (Return cs, fs1, d1)
           else create_chain_loop fs1 d1 scl (ncl + 1))"
      using nowrap ne by (subst create_chain_loop.simps) (simp add: g)
    have ff: "first_free fs d (map of_nat ([Suc (unat ncl) ..< unat (n_fatent fs)] @ [2 ..< Suc (unat scl)])) =
          (if cs = 0 then (Next (ncl + 1), fs1, d1)
           else if cs = 1 \<or> cs = 0xFFFFFFFF then (Return cs, fs1, d1)
           else first_free fs1 d1
                  (map of_nat ([Suc (Suc (unat ncl)) ..< unat (n_fatent fs)] @ [2 ..< Suc (unat scl)])))"
      by (simp only: lst list.map append_Cons hd first_free.simps g prod.case)
    have m: "unat (n_fatent fs1) - unat (ncl + 1) < unat (n_fatent fs) - unat ncl"
      using nlt u n1 by simp
    have p1: "unat scl \<le> unat (ncl + 1)" using less.prems(1) u by simp
    have p2: "ncl + 1 < n_fatent fs1" using lt1 n1 by simp
    have p3: "scl = 1 \<or> (2 \<le> scl \<and> scl < n_fatent fs1)" using less.prems(3) n1 by simp
    have ih: "create_chain_loop fs1 d1 scl (ncl + 1)
          = Some (first_free fs1 d1
              (map of_nat ([Suc (unat (ncl + 1)) ..< unat (n_fatent fs1)] @ [2 ..< Suc (unat scl)])))"
      by (rule less.hyps [OF m p1 p2 p3])
    show ?thesis unfolding unf ff using ih by (simp add: u n1)
  qed
qed


lemma scan_from_start:
  assumes "scl = 1 \<or> (2 \<le> scl \<and> scl < n_fatent fs)"
  shows "create_chain_loop fs d scl scl
           = Some (first_free fs d (scan_order (unat scl) (unat (n_fatent fs))))"
proof (cases "scl < n_fatent fs")
  case True
  have "create_chain_loop fs d scl scl
          = Some (first_free fs d
              (map of_nat ([Suc (unat scl) ..< unat (n_fatent fs)] @ [2 ..< Suc (unat scl)])))"
    by (rule scan_before_wrap [OF _ True assms]) simp
  then show ?thesis by (simp add: scan_order_def del: upt_Suc)
next
  case False
  then have s1: "scl = 1" and n: "n_fatent fs \<le> 1" using assms by auto
  have n2: "n_fatent fs \<le> 2" using n by (simp add: word_le_nat_alt)
  have "unat (n_fatent fs) \<le> 1" using n by (simp add: word_le_nat_alt)
  then have l: "scan_order (Suc 0) (unat (n_fatent fs)) = []"
    by (simp add: scan_order_def)
  show ?thesis
    by (subst create_chain_loop.simps) (simp add: s1 n2 l)
qed

text \<open>
  Claim C5, as the code has it. \<^verbatim>\<open>create_chain\<close> with \<^verbatim>\<open>clst = 0\<close> always returns.
  When the cached count of free clusters is 0 it returns 0 (no space) at once, without
  reading the FAT. Otherwise it reads the cells in scan order, starting after
  \<^verbatim>\<open>last_clst\<close> (after cluster 1 when \<^verbatim>\<open>last_clst\<close> is 0 or not below
  \<^verbatim>\<open>n_fatent\<close>) and wrapping at \<^verbatim>\<open>n_fatent\<close> to cluster 2, up to the start cluster.
  At the first cell that reads 0 it marks the cluster as end of chain and returns its
  number, with \<^verbatim>\<open>last_clst\<close>, \<^verbatim>\<open>free_clst\<close> and the FSInfo flag updated, or the error
  status if the mark could not be written. A cell that reads as reserved and a failed
  read return the status 1 and \<open>0xFFFFFFFF\<close>; when no cell of the scan reads 0 the
  result is 0.
\<close>

theorem create_chain_new_chain:
  "create_chain fs d 0 =
     (let scl = (if last_clst fs = 0 \<or> last_clst fs \<ge> n_fatent fs then 1 else last_clst fs) in
      if free_clst fs = 0 then Some (0, fs, d)
      else
        (case first_free fs d (scan_order (unat scl) (unat (n_fatent fs))) of
           (Return v, fs1, d1) \<Rightarrow> Some (v, fs1, d1)
         | (Next ncl, fs1, d1) \<Rightarrow> Some (create_chain_link fs1 d1 0 ncl)))"
proof -
  define scl where "scl = (if last_clst fs = 0 \<or> last_clst fs \<ge> n_fatent fs then 1 else last_clst fs)"
  have st: "create_chain_start fs d 0 = (Next scl, fs, d)"
    by (simp add: create_chain_start_def scl_def Let_def)
  have ok: "scl = 1 \<or> (2 \<le> scl \<and> scl < n_fatent fs)"
  proof (cases "last_clst fs = 0 \<or> last_clst fs \<ge> n_fatent fs")
    case True then show ?thesis by (simp add: scl_def)
  next
    case False
    then have a: "scl = last_clst fs" "scl \<noteq> 0" "scl < n_fatent fs" by (auto simp: scl_def)
    have "1 \<le> unat scl" using a(2) by (simp add: unat_gt_0 Suc_le_eq)
    then have "unat scl = 1 \<or> 2 \<le> unat scl" by linarith
    then have "scl = 1 \<or> 2 \<le> scl" by (auto simp: word_le_nat_alt word_unat_eq_iff)
    then show ?thesis using a(3) by auto
  qed
  have ne: "scl \<noteq> 0" using ok by auto
  have ct: "create_chain_contig fs d 0 scl = (Next 0, scl, fs, d)"
    using ne by (simp add: create_chain_contig_def)
  show ?thesis
    unfolding scl_def [symmetric] Let_def
    by (simp add: create_chain_def st ct scan_from_start [OF ok] split: prod.splits step.splits)
qed

text \<open>
  The claim as stated fails when the cached free count is 0: on the volume below the
  scan would start at cluster 3, whose cell reads 0, yet the call returns 0 and marks
  nothing.
\<close>

lemma get_fat_demo_3: "get_fat (fat32_demo\<lparr>free_clst := n\<rparr>) host_demo 3 = (0, fat32_demo\<lparr>free_clst := n\<rparr>, host_demo)"
  by (simp add: get_fat_def fat32_demo_def host_demo_def move_window_def flag_defs SS_def ld_dword_def)

theorem create_chain_free_count_counterexample:
  "get_fat (fat32_demo\<lparr>free_clst := 0\<rparr>) host_demo (last_clst (fat32_demo\<lparr>free_clst := 0\<rparr>) + 1)
     = (0, fat32_demo\<lparr>free_clst := 0\<rparr>, host_demo)
   \<and> create_chain (fat32_demo\<lparr>free_clst := 0\<rparr>) host_demo 0
     = Some (0, fat32_demo\<lparr>free_clst := 0\<rparr>, host_demo)"
proof -
  have l: "last_clst (fat32_demo\<lparr>free_clst := 0\<rparr>) + 1 = 3" by (simp add: fat32_demo_def)
  have c: "create_chain (fat32_demo\<lparr>free_clst := 0\<rparr>) host_demo 0
             = Some (0, fat32_demo\<lparr>free_clst := 0\<rparr>, host_demo)"
    by (simp add: create_chain_def create_chain_start_def Let_def fat32_demo_def)
  show ?thesis using get_fat_demo_3 [of 0] l c by simp
qed

text \<open>With 90 clusters counted free, the same volume yields cluster 3, marked.\<close>

theorem create_chain_new_chain_witness:
  "create_chain fat32_demo host_demo 0 =
     Some (3, fat32_demo\<lparr>win := st_dword (win fat32_demo) 12 0x0FFFFFFF, wflag := 1,
                         last_clst := 3, free_clst := 89, fsi_flag := 1\<rparr>, host_demo)"
proof -
  have so: "scan_order 2 100 = 3 # map of_nat ([4 ..< 100] @ [2 ..< 3])"
    by (simp add: scan_order_def upt_conv_Cons del: upt_Suc)
  have g: "get_fat fat32_demo host_demo 3 = (0, fat32_demo, host_demo)"
    using get_fat_demo_3 [of 90] by (simp add: fat32_demo_def)
  have ff: "first_free fat32_demo host_demo (scan_order 2 100) = (Next 3, fat32_demo, host_demo)"
    by (simp only: so first_free.simps g prod.case) simp
  have lk: "create_chain_link fat32_demo host_demo 0 3 =
     (3, fat32_demo\<lparr>win := st_dword (win fat32_demo) 12 0x0FFFFFFF, wflag := 1,
                         last_clst := 3, free_clst := 89, fsi_flag := 1\<rparr>, host_demo)"
    by (simp add: create_chain_link_def put_fat_def fat32_demo_def host_demo_def move_window_def
        flag_defs SS_def ld_dword_def Let_def)
  have v: "last_clst fat32_demo = 2" "n_fatent fat32_demo = 100" "free_clst fat32_demo = 90"
    by (simp_all add: fat32_demo_def)
  show ?thesis using create_chain_new_chain [of fat32_demo host_demo]
    by (simp add: v ff lk)
qed


section \<open>Open-file registry: the read count runs into the write mark\<close>

lemma of_nat_ne_256: "k < 256 \<Longrightarrow> (of_nat k :: 32 word) \<noteq> 0x100"
proof
  assume k: "k < 256" and e: "(of_nat k :: 32 word) = 0x100"
  have "unat (of_nat k :: 32 word) = k" using k by (simp add: unat_of_nat)
  with e show False using k by simp
qed

lemma read_open_step:
  assumes "k < 256"
  shows "chk_share [sem_demo (of_nat k)] dp_demo 0 = FR_OK"
    and "inc_share [sem_demo (of_nat k)] dp_demo 0 = (1, [sem_demo (of_nat (Suc k))])"
  using of_nat_ne_256 [OF assms]
  by (simp_all add: chk_share_def inc_share_def sem_demo_def dp_demo_def Let_def)

lemma read_opens_count:
  "k + n \<le> 256 \<Longrightarrow> read_opens n [sem_demo (of_nat k)] dp_demo = Some [sem_demo (of_nat (k + n))]"
proof (induction n arbitrary: k)
  case 0
  then show ?case by simp
next
  case (Suc n)
  then have k: "k < 256" and le: "Suc k + n \<le> 256" by simp_all
  show ?case using Suc.IH [OF le] read_open_step [OF k] by simp
qed

lemma first_read_open:
  "chk_share [sem_blank] dp_demo 0 = FR_OK"
  "inc_share [sem_blank] dp_demo 0 = (1, [sem_demo 1])"
  by (simp_all add: chk_share_def inc_share_def sem_demo_def sem_blank_def dp_demo_def Let_def)

text \<open>
  Claim C6 (the code departs from it). The counter of a registered object is documented
  as \<open>0x01..0xFF\<close> for read-mode opens and \<open>0x100\<close> for a write-mode open. A read open
  is admitted whenever the counter is not \<open>0x100\<close> and adds one to it, with no bound at
  \<open>0xFF\<close>: after 255 read opens of one file the next read open is admitted too and
  leaves \<open>0x100\<close>, the mark of an exclusive writer. From then on further read opens are
  refused as locked, and the first close frees the entry although 255 readers are still
  open, after which a write open is admitted.
\<close>

theorem read_count_reaches_write_mark:
  "read_opens 255 [sem_blank] dp_demo = Some [sem_demo 0xFF]
   \<and> chk_share [sem_demo 0xFF] dp_demo 0 = FR_OK
   \<and> inc_share [sem_demo 0xFF] dp_demo 0 = (1, [sem_demo 0x100])
   \<and> chk_share [sem_demo 0x100] dp_demo 0 = FR_LOCKED
   \<and> dec_share [sem_demo 0x100] 1 = (FR_OK, [(sem_demo 0)\<lparr>sem_fs := 0\<rparr>])
   \<and> chk_share [(sem_demo 0)\<lparr>sem_fs := 0\<rparr>] dp_demo 1 = FR_OK"
proof -
  have a: "read_opens 255 [sem_blank] dp_demo = read_opens 254 [sem_demo 1] dp_demo"
    using first_read_open by (simp add: eval_nat_numeral)
  have b: "read_opens 254 [sem_demo (of_nat 1)] dp_demo = Some [sem_demo (of_nat (1 + 254))]"
    by (rule read_opens_count) simp
  have c: "chk_share [sem_demo (of_nat 255)] dp_demo 0 = FR_OK"
    "inc_share [sem_demo (of_nat 255)] dp_demo 0 = (1, [sem_demo (of_nat (Suc 255))])"
    by (rule read_open_step, simp)+
  have d: "chk_share [sem_demo 0x100] dp_demo 0 = FR_LOCKED"
    by (simp add: chk_share_def sem_demo_def dp_demo_def)
  have e: "dec_share [sem_demo 0x100] 1 = (FR_OK, [(sem_demo 0)\<lparr>sem_fs := 0\<rparr>])"
    by (simp add: dec_share_def sem_demo_def Let_def)
  have f: "chk_share [(sem_demo 0)\<lparr>sem_fs := 0\<rparr>] dp_demo 1 = FR_OK"
    by (simp add: chk_share_def sem_demo_def dp_demo_def)
  show ?thesis using a b c d e f by simp
qed

text \<open>The 256th read open alone, read off the theorem.\<close>

theorem read_count_reaches_write_mark_witness:
  "inc_share [sem_demo 0xFF] dp_demo 0 = (1, [sem_demo 0x100])"
  using read_count_reaches_write_mark by simp


section \<open>The transfer loops\<close>

text \<open>
  A step of the read loop leaves the file pointer, the object identity and the sticky
  error alone; the loop adds to \<^verbatim>\<open>*br\<close> exactly what it adds to the file pointer, and an
  error that ends it is latched. The write loop ends either without space or with its
  error latched.
\<close>

lemma flush_buf_keeps:
  assumes "flush_buf fp d = (ok, fp1, d1)"
  shows "fptr fp1 = fptr fp \<and> obj fp1 = obj fp \<and> err fp1 = err fp"
  using assms by (auto simp: flush_buf_def split: if_splits prod.splits bool.splits)

lemma f_read_cluster_keeps:
  assumes "f_read_cluster fp fs d = (x, fp1, fs1, d1)"
  shows "fptr fp1 = fptr fp \<and> obj fp1 = obj fp \<and> err fp1 = err fp"
  using assms by (auto simp: f_read_cluster_def split: if_splits prod.splits option.splits)

lemma f_read_partial_keeps:
  assumes "f_read_partial btr fp fs d = (x, fp1, fs1, d1)"
  shows "fptr fp1 = fptr fp \<and> obj fp1 = obj fp \<and> err fp1 = err fp"
  using assms by (auto simp: f_read_partial_def Let_def split: if_splits prod.splits bool.splits)

lemma f_read_step_keeps:
  assumes "f_read_step btr fp fs d = (x, fp1, fs1, d1)"
  shows "fptr fp1 = fptr fp \<and> obj fp1 = obj fp \<and> err fp1 = err fp"
  using assms
  apply (simp add: f_read_step_def Let_def split: if_splits prod.splits option.splits bool.splits)
  apply (auto dest!: f_read_cluster_keeps flush_buf_keeps f_read_partial_keeps)
  done

lemma f_read_loop_count:
  assumes "f_read_loop btr br out fp fs d = Some y"
  shows "(case y of (res, out', br', fp', fs', d') \<Rightarrow> br' - br = fptr fp' - fptr fp)"
proof (rule f_read_loop.raw_induct
         [where P = "\<lambda>btr br out fp fs d y.
             (case y of (res, out', br', fp', fs', d') \<Rightarrow> br' - br = fptr fp' - fptr fp)",
          OF _ assms], goal_cases)
  case (1 loop btr br out fp fs d y)
  show ?case
  proof (cases "0 < btr")
    case False
    then show ?thesis using 1(2) by auto
  next
    case True
    obtain fl data fp1 fs1 d1 where s: "f_read_step btr fp fs d = ((fl, data), fp1, fs1, d1)"
      by (metis prod.exhaust)
    note k = f_read_step_keeps [OF s]
    show ?thesis
    proof (cases fl)
      case (Abort e)
      then show ?thesis using 1(2) True s k by auto
    next
      case (Break e)
      then show ?thesis using 1(2) True s k by auto
    next
      case (Go rcnt)
      then have r: "loop (btr - rcnt) (br + rcnt) (out @ data) (fp1\<lparr>fptr := fptr fp1 + rcnt\<rparr>) fs1 d1 = Some y"
        using 1(2) True s by simp
      from 1(1) [OF r] show ?thesis using k by (auto split: prod.splits)
    qed
  qed
qed

lemma f_read_loop_latch:
  assumes "f_read_loop btr br out fp fs d = Some y"
  shows "(case y of (res, out', br', fp', fs', d') \<Rightarrow> res \<noteq> FR_OK \<longrightarrow> err fp' = res)"
proof (rule f_read_loop.raw_induct
         [where P = "\<lambda>btr br out fp fs d y.
             (case y of (res, out', br', fp', fs', d') \<Rightarrow> res \<noteq> FR_OK \<longrightarrow> err fp' = res)",
          OF _ assms], goal_cases)
  case (1 loop btr br out fp fs d y)
  show ?case
  proof (cases "0 < btr")
    case False
    then show ?thesis using 1(2) by auto
  next
    case True
    obtain fl data fp1 fs1 d1 where s: "f_read_step btr fp fs d = ((fl, data), fp1, fs1, d1)"
      by (metis prod.exhaust)
    have nb: "\<And>e. fl \<noteq> Break e"
      using s
      by (auto simp: f_read_step_def f_read_partial_def Let_def
               split: if_splits prod.splits option.splits bool.splits)
    show ?thesis
    proof (cases fl)
      case (Abort e)
      then show ?thesis using 1(2) True s by auto
    next
      case (Break e)
      then show ?thesis using nb by simp
    next
      case (Go rcnt)
      then have r: "loop (btr - rcnt) (br + rcnt) (out @ data) (fp1\<lparr>fptr := fptr fp1 + rcnt\<rparr>) fs1 d1 = Some y"
        using 1(2) True s by simp
      from 1(1) [OF r] show ?thesis by (auto split: prod.splits)
    qed
  qed
qed

lemma f_write_partial_flow:
  "f_write_partial btw wbuff off fp fs d = (Break e, fp1, fs1, d1) \<Longrightarrow> False"
  by (auto simp: f_write_partial_def Let_def split: prod.splits bool.splits)

lemma f_write_cluster_flow:
  "f_write_cluster fp fs d = Some (Some (Break e), fp1, fs1, d1) \<Longrightarrow> e = FR_NO_SPACE_LEFT"
  by (auto simp: f_write_cluster_def Let_def split: if_splits option.splits prod.splits)

lemma f_write_step_flow:
  assumes "f_write_step btw wbuff off fp fs d = Some (Break e, fp1, fs1, d1)"
  shows "e = FR_NO_SPACE_LEFT"
  using assms
  apply (simp add: f_write_step_def Let_def split: if_splits prod.splits option.splits bool.splits)
  apply (auto dest: f_write_cluster_flow f_write_partial_flow)
  done

lemma f_write_loop_latch:
  assumes "f_write_loop btw bw wbuff fp fs d = Some y"
  shows "(case y of (res, bw', fp', fs', d') \<Rightarrow>
            res \<noteq> FR_OK \<longrightarrow> res = FR_NO_SPACE_LEFT \<or> err fp' = res)"
proof (rule f_write_loop.raw_induct
         [where P = "\<lambda>btw bw wbuff fp fs d y.
             (case y of (res, bw', fp', fs', d') \<Rightarrow>
                res \<noteq> FR_OK \<longrightarrow> res = FR_NO_SPACE_LEFT \<or> err fp' = res)",
          OF _ assms], goal_cases)
  case (1 loop btw bw wbuff fp fs d y)
  show ?case
  proof (cases "0 < btw")
    case False
    then show ?thesis using 1(2) by auto
  next
    case True
    then obtain fl fp1 fs1 d1 where s: "f_write_step btw wbuff (unat bw) fp fs d = Some (fl, fp1, fs1, d1)"
      using 1(2) by (cases "f_write_step btw wbuff (unat bw) fp fs d") auto
    show ?thesis
    proof (cases fl)
      case (Abort e)
      then show ?thesis using 1(2) True s by auto
    next
      case (Break e)
      then have "e = FR_NO_SPACE_LEFT" using s f_write_step_flow by blast
      then show ?thesis using Break 1(2) True s by auto
    next
      case (Go wcnt)
      then obtain fpn where r: "loop (btw - wcnt) (bw + wcnt) wbuff fpn fs1 d1 = Some y"
        using 1(2) True s by (simp add: Let_def)
      from 1(1) [OF r] show ?thesis by (auto split: prod.splits)
    qed
  qed
qed


section \<open>The concrete file, evaluated\<close>

lemma vol_demo_fields [simp]:
  "fs_type vol_demo = FS_FAT32" "ssize vol_demo = 512" "csize vol_demo = 1"
  "n_fatent vol_demo = 100" "fatbase vol_demo = 32" "database vol_demo = 34"
  "winsect vol_demo = 32" "wflag vol_demo = 0" "fs_id vol_demo = 1" "n_fats vol_demo = 1"
  "fsize vol_demo = 1" "SS vol_demo = 512" "fsi_flag vol_demo = 0" "last_clst vol_demo = 4"
  "free_clst vol_demo = 96" "volbase vol_demo = 0"
  by (simp_all add: vol_demo_def SS_def)

lemma vol_demo_cells [simp]:
  "ld_dword (win vol_demo) 12 = 4" "ld_dword (win vol_demo) 16 = 0x0FFFFFFF"
  by (simp_all add: vol_demo_def ld_dword_def)

lemma fil_demo_fields [simp]:
  "obj fil_demo = \<lparr>obj_fs = 1, obj_id = 1, attr = 0x20, sclust = 3, objsize = 1024, lockid = 1\<rparr>"
  "flag fil_demo = FA_READ" "err fil_demo = FR_OK" "fptr fil_demo = 0" "clust fil_demo = 0"
  "sect fil_demo = 0" "cltbl fil_demo = None" "dir_sect fil_demo = 33" "dir_ptr fil_demo = 0"
  "buf fil_demo = (\<lambda>i. 0)"
  by (simp_all add: fil_demo_def)

lemma host_fail1_fields [simp]:
  "requests host_fail1 = 0" "faulty host_fail1 = (\<lambda>k. k = 1)" "noinit host_fail1 = False"
  "media host_fail1 = (\<lambda>s i. 0)"
  by (simp_all add: host_fail1_def)

lemma host_demo_fields [simp]:
  "requests host_demo = 0" "faulty host_demo = (\<lambda>k. False)" "noinit host_demo = False"
  "media host_demo = (\<lambda>s i. 0)" "fattime host_demo = 0"
  "time_status host_demo = SYSTEM_TIME_ENABLE"
  by (simp_all add: host_demo_def)

lemma vol_demo_cell3: "get_fat vol_demo d 3 = (4, vol_demo, d)"
  by (simp add: get_fat_def move_window_def flag_defs)

lemma vol_demo_cell4: "get_fat vol_demo d 4 = (0x0FFFFFFF, vol_demo, d)"
  by (simp add: get_fat_def move_window_def flag_defs)


section \<open>Bytes read when a read fails\<close>

text \<open>
  A read of 1024 bytes from the two-cluster file, on a host whose second request fails.
  The first step reads the sector of cluster 3 straight into the caller's buffer; the
  second follows the chain to cluster 4 and its device read fails.
\<close>

lemma read_step1:
  "f_read_step 1024 fil_demo vol_demo host_fail1
     = ((Go 512, bytes_of 512 [\<lambda>i. 0]), fil_demo\<lparr>clust := 3\<rparr>, vol_demo, host_fail1\<lparr>requests := 1\<rparr>)"
  by (simp add: f_read_step_def f_read_cluster_def clst2sect_def disk_read_def Let_def flag_defs SS_def
      word_le_nat_alt)

lemma read_step2:
  "f_read_step 512 (fil_demo\<lparr>clust := 3, fptr := 512\<rparr>) vol_demo (host_fail1\<lparr>requests := 1\<rparr>)
     = ((Abort FR_DISK_ERR, []), fil_demo\<lparr>clust := 4, fptr := 512\<rparr>, vol_demo, host_fail1\<lparr>requests := 2\<rparr>)"
  by (simp add: f_read_step_def f_read_cluster_def vol_demo_cell3 clst2sect_def disk_read_def Let_def
      flag_defs SS_def word_le_nat_alt)

lemma read_demo:
  "f_read vol_demo host_fail1 fil_demo 1024
     = Some (FR_DISK_ERR, bytes_of 512 [\<lambda>i. 0], 512,
             fil_demo\<lparr>clust := 4, fptr := 512, err := FR_DISK_ERR\<rparr>, vol_demo,
             host_fail1\<lparr>requests := 2\<rparr>)"
proof -
  have e: "f_read vol_demo host_fail1 fil_demo 1024 = f_read_loop 1024 0 [] fil_demo vol_demo host_fail1"
    by (simp add: f_read_def validate_def Let_def flag_defs)
  show ?thesis
    unfolding e
    apply (subst f_read_loop.simps)
    apply (simp add: read_step1 [simplified])
    apply (subst f_read_loop.simps)
    apply (simp add: read_step2 [simplified])
    done
qed

text \<open>
  Claim C7 as stated fails here: the call returns \<^verbatim>\<open>FR_DISK_ERR\<close> with 512 in \<^verbatim>\<open>*br\<close>.
\<close>

theorem f_read_partway_counterexample:
  "map_option fst (f_read vol_demo host_fail1 fil_demo 1024) = Some FR_DISK_ERR
   \<and> map_option (fst \<circ> snd \<circ> snd) (f_read vol_demo host_fail1 fil_demo 1024) = Some 512"
  by (simp add: read_demo)

text \<open>
  Claim C7, as the code has it. \<^verbatim>\<open>f_read\<close> clears \<^verbatim>\<open>*br\<close> on entry and adds to it what
  each completed step transfers, so on every return \<^verbatim>\<open>*br\<close> is the distance the file
  pointer has moved. When the call fails in its entry checks (the object is not valid,
  an error is latched, or the file is not open for reading) \<^verbatim>\<open>*br\<close> is 0 and nothing has
  changed.
\<close>

theorem f_read_bytes_read:
  assumes "f_read fs d fp btr = Some (res, out, br, fp', fs', d')"
  shows "br = fptr fp' - fptr fp
       \<and> (validate (obj fp) fs d \<noteq> FR_OK \<or> err fp \<noteq> FR_OK \<or> flag fp AND FA_READ = 0
            \<longrightarrow> res \<noteq> FR_OK \<and> br = 0 \<and> fp' = fp \<and> fs' = fs \<and> d' = d)"
proof (cases "validate (obj fp) fs d \<noteq> FR_OK \<or> err fp \<noteq> FR_OK \<or> flag fp AND FA_READ = 0")
  case True
  then show ?thesis using assms by (auto simp: f_read_def Let_def split: if_splits)
next
  case False
  then obtain b where l: "f_read_loop b 0 [] fp fs d = Some (res, out, br, fp', fs', d')"
    using assms by (auto simp: f_read_def Let_def split: if_splits)
  from f_read_loop_count [OF l] False show ?thesis by simp
qed

text \<open>The theorem on the run above: 512 bytes read, and the file pointer at 512.\<close>

theorem f_read_bytes_read_witness:
  "f_read vol_demo host_fail1 fil_demo 1024
     = Some (FR_DISK_ERR, bytes_of 512 [\<lambda>i. 0], 512,
             fil_demo\<lparr>clust := 4, fptr := 512, err := FR_DISK_ERR\<rparr>, vol_demo,
             host_fail1\<lparr>requests := 2\<rparr>)
   \<and> (512 :: UINT)
       = fptr (fil_demo\<lparr>clust := 4, fptr := 512, err := FR_DISK_ERR\<rparr>) - fptr fil_demo"
  using f_read_bytes_read [OF read_demo] read_demo by simp


section \<open>Access with the wrong mode\<close>




section \<open>Truncating to length zero\<close>

text \<open>
  Claim C2 (the code departs from it). The handle \<open>fil_mid\<close> is open for writing, its
  file has the chain 3, 4 and its file pointer stands at 512. Truncating to length 0
  takes the branch for a partial truncation, because the branch that removes the entire
  chain also asks for the file pointer to be 0. With no cluster required the walk runs
  to the end of the chain and finds nothing after it to remove. The call returns
  \<^verbatim>\<open>FR_OK\<close> with the size set to 0, while the start cluster is still 3 and the FAT still
  links 3 to 4 and ends the chain at 4.
\<close>

lemma truncate_walk_demo:
  "f_truncate_walk vol_demo host_demo 0 0x0FFFFFFF 3 0 = Some (4, 0x0FFFFFFF, vol_demo, host_demo)"
  apply (subst f_truncate_walk.simps)
  apply (simp add: vol_demo_cell3)
  apply (subst f_truncate_walk.simps)
  apply (simp add: vol_demo_cell4)
  done

theorem f_truncate_zero_keeps_chain:
  "f_truncate vol_demo host_demo fil_mid 0
     = Some (FR_OK,
             fil_mid\<lparr>obj := (obj fil_mid)\<lparr>objsize := 0\<rparr>, fptr := 0, clust := 4,
                      flag := FA_READ OR FA_WRITE OR FA_MODIFIED\<rparr>,
             vol_demo, host_demo)
   \<and> sclust (obj fil_mid) = 3
   \<and> get_fat vol_demo host_demo 3 = (4, vol_demo, host_demo)
   \<and> get_fat vol_demo host_demo 4 = (0x0FFFFFFF, vol_demo, host_demo)"
proof -
  have v: "validate (obj fil_mid) vol_demo host_demo = FR_OK"
    by (simp add: validate_def fil_mid_def flag_defs)
  have l: "last_clst vol_demo = 4" by simp
  have t: "f_truncate vol_demo host_demo fil_mid 0
     = Some (FR_OK,
             fil_mid\<lparr>obj := (obj fil_mid)\<lparr>objsize := 0\<rparr>, fptr := 0, clust := 4,
                      flag := FA_READ OR FA_WRITE OR FA_MODIFIED\<rparr>,
             vol_demo\<lparr>last_clst := 4\<rparr>, host_demo)"
    by (simp add: f_truncate_def v Let_def get_end_of_cluster_def)
       (simp add: fil_mid_def flag_defs truncate_walk_demo word_le_nat_alt)
  have "vol_demo\<lparr>last_clst := 4\<rparr> = vol_demo" by (simp add: vol_demo_def)
  then show ?thesis using t vol_demo_cell3 vol_demo_cell4 by (simp add: fil_mid_def)
qed

text \<open>Read off the theorem: the call succeeds and the start cluster stays.\<close>

theorem f_truncate_zero_keeps_chain_witness:
  "map_option fst (f_truncate vol_demo host_demo fil_mid 0) = Some FR_OK
   \<and> map_option (sclust \<circ> obj \<circ> fst \<circ> snd) (f_truncate vol_demo host_demo fil_mid 0) = Some 3"
  using f_truncate_zero_keeps_chain by (simp add: fil_mid_def)


section \<open>The latched error\<close>

lemma f_read_disk_err_latched:
  assumes "f_read fs d fp btr = Some (res, out, br, fp', fs', d')" and "res = FR_DISK_ERR"
  shows "err fp' = FR_DISK_ERR"
proof (cases "validate (obj fp) fs d \<noteq> FR_OK \<or> err fp \<noteq> FR_OK \<or> flag fp AND FA_READ = 0")
  case True
  then show ?thesis using assms
    by (auto simp: f_read_def Let_def validate_def split: if_splits)
next
  case False
  then obtain b where l: "f_read_loop b 0 [] fp fs d = Some (res, out, br, fp', fs', d')"
    using assms by (auto simp: f_read_def Let_def split: if_splits)
  from f_read_loop_latch [OF l] assms(2) show ?thesis by simp
qed

lemma f_write_disk_err_latched:
  assumes "f_write fs d fp wbuff btw = Some (res, bw, fp', fs', d')" and "res = FR_DISK_ERR"
  shows "err fp' = FR_DISK_ERR"
proof (cases "validate (obj fp) fs d \<noteq> FR_OK \<or> err fp \<noteq> FR_OK \<or> flag fp AND FA_WRITE = 0")
  case True
  then show ?thesis using assms
    by (auto simp: f_write_def Let_def validate_def split: if_splits)
next
  case False
  then obtain b where l: "f_write_loop b 0 wbuff fp fs d = Some (res, bw, fp', fs', d')"
    using assms by (auto simp: f_write_def Let_def split: if_splits)
  from f_write_loop_latch [OF l] assms(2) show ?thesis by simp
qed

text \<open>
  Claim C8, as the code has it. A disk error that \<^verbatim>\<open>f_read\<close> or \<^verbatim>\<open>f_write\<close> returns is
  latched in the file object. On a valid object with an error latched, \<^verbatim>\<open>f_read\<close>,
  \<^verbatim>\<open>f_write\<close>, \<^verbatim>\<open>f_lseek\<close> and \<^verbatim>\<open>f_truncate\<close> return the stored error at once: the file
  object, the volume and the host are unchanged, so no request has gone to the device.
\<close>

theorem latched_error_short_circuit:
  "(f_read fs d fp btr = Some (FR_DISK_ERR, out, br, fp', fs', d') \<longrightarrow> err fp' = FR_DISK_ERR)
   \<and> (f_write fs d fp wbuff btw = Some (FR_DISK_ERR, bw, fp', fs', d') \<longrightarrow> err fp' = FR_DISK_ERR)
   \<and> (validate (obj fp) fs d = FR_OK \<and> err fp \<noteq> FR_OK \<longrightarrow>
         f_read fs d fp btr = Some (err fp, [], 0, fp, fs, d)
       \<and> f_write fs d fp wbuff btw = Some (err fp, 0, fp, fs, d)
       \<and> f_lseek fs d fp pos = Some (err fp, fp, fs, d)
       \<and> f_truncate fs d fp len = Some (err fp, fp, fs, d))"
proof -
  have a: "f_read fs d fp btr = Some (FR_DISK_ERR, out, br, fp', fs', d') \<longrightarrow> err fp' = FR_DISK_ERR"
    using f_read_disk_err_latched by blast
  have b: "f_write fs d fp wbuff btw = Some (FR_DISK_ERR, bw, fp', fs', d') \<longrightarrow> err fp' = FR_DISK_ERR"
    using f_write_disk_err_latched by blast
  have c: "validate (obj fp) fs d = FR_OK \<and> err fp \<noteq> FR_OK \<longrightarrow>
         f_read fs d fp btr = Some (err fp, [], 0, fp, fs, d)
       \<and> f_write fs d fp wbuff btw = Some (err fp, 0, fp, fs, d)
       \<and> f_lseek fs d fp pos = Some (err fp, fp, fs, d)
       \<and> f_truncate fs d fp len = Some (err fp, fp, fs, d)"
    by (simp add: f_read_def f_write_def f_truncate_def f_lseek_def Let_def)
  show ?thesis using a b c by blast
qed

text \<open>
  On the concrete file: the failed read of above latches the error, and the handle with
  the error latched is turned away by all four functions.
\<close>

theorem latched_error_short_circuit_witness:
  "f_read vol_demo host_fail1 fil_demo 1024
     = Some (FR_DISK_ERR, bytes_of 512 [\<lambda>i. 0], 512,
             fil_demo\<lparr>clust := 4, fptr := 512, err := FR_DISK_ERR\<rparr>, vol_demo,
             host_fail1\<lparr>requests := 2\<rparr>)
   \<and> err (fil_demo\<lparr>clust := 4, fptr := 512, err := FR_DISK_ERR\<rparr>) = FR_DISK_ERR
   \<and> f_read vol_demo host_demo fil_failed 10 = Some (FR_DISK_ERR, [], 0, fil_failed, vol_demo, host_demo)
   \<and> f_write vol_demo host_demo fil_failed (\<lambda>i. 0) 10 = Some (FR_DISK_ERR, 0, fil_failed, vol_demo, host_demo)
   \<and> f_lseek vol_demo host_demo fil_failed 0 = Some (FR_DISK_ERR, fil_failed, vol_demo, host_demo)
   \<and> f_truncate vol_demo host_demo fil_failed 0 = Some (FR_DISK_ERR, fil_failed, vol_demo, host_demo)"
proof -
  have v: "validate (obj fil_failed) vol_demo host_demo = FR_OK"
    by (simp add: validate_def fil_failed_def flag_defs)
  have e: "err fil_failed = FR_DISK_ERR" by (simp add: fil_failed_def)
  show ?thesis
    using latched_error_short_circuit [of vol_demo host_demo fil_failed 10 _ _ _ _ _ "\<lambda>i. 0" 10 _ 0 0]
      latched_error_short_circuit [of vol_demo host_fail1 fil_demo 1024] read_demo v e
    by simp
qed

text \<open>
  The claim as stated fails for \<^verbatim>\<open>f_sync\<close>, which checks the object with \<^verbatim>\<open>validate\<close>
  only. On the handle with a disk error latched, which is valid and marked as modified,
  it reads the sector of the directory entry, writes it back and asks the device to
  synchronise: three requests, and the result is \<^verbatim>\<open>FR_OK\<close>, not the stored error.
\<close>

lemma sync_demo_flush: "flush_buf fil_failed host_demo = (True, fil_failed, host_demo)"
  by (simp add: flush_buf_def fil_failed_def flag_defs)

lemma sync_demo_move:
  "move_window vol_demo host_demo 33
     = (FR_OK, vol_demo\<lparr>win := (\<lambda>i. 0), winsect := 33\<rparr>, host_demo\<lparr>requests := 1\<rparr>)"
  by (simp add: move_window_def sync_window_def disk_read_def Let_def)

lemma sync_demo_fs:
  assumes "wflag fs = 1" and "winsect fs = 33" and "fatbase fs = 32" and "fsize fs = 1"
    and "fsi_flag fs = 0"
  shows "fst (sync_fs fs (host_demo\<lparr>requests := 1\<rparr>)) = FR_OK
       \<and> requests (snd (snd (sync_fs fs (host_demo\<lparr>requests := 1\<rparr>)))) = 3"
  using assms
  by (simp add: sync_fs_def sync_window_def disk_write_def disk_ioctl_sync_def Let_def)


theorem f_sync_ignores_latch_counterexample:
  "validate (obj fil_failed) vol_demo host_demo = FR_OK
   \<and> err fil_failed = FR_DISK_ERR
   \<and> fst (f_sync vol_demo host_demo fil_failed) = FR_OK
   \<and> requests (snd (snd (snd (f_sync vol_demo host_demo fil_failed)))) = 3"
proof -
  have v: "validate (obj fil_failed) vol_demo host_demo = FR_OK"
    by (simp add: validate_def fil_failed_def flag_defs)
  have m: "flag fil_failed AND FA_MODIFIED \<noteq> 0" by (simp add: fil_failed_def flag_defs)
  have ds: "dir_sect fil_failed = 33" by (simp add: fil_failed_def)
  have e: "err fil_failed = FR_DISK_ERR" by (simp add: fil_failed_def)
  show ?thesis
    by (simp add: f_sync_def Let_def v m ds e sync_demo_flush sync_demo_move [simplified] split_beta
        sync_demo_fs [simplified])
qed


section \<open>The FAT sub-type found at mount\<close>






lemma fat_subtype_cases:
  "fat_subtype cf nclst =
     (if nclst \<le> 4084 then FS_FAT12
      else if nclst \<le> 65524 then FS_FAT16
      else if nclst \<le> MAX_FAT32 cf then FS_FAT32 else 0)"
  by (simp add: fat_subtype_def MAX_FAT12_def MAX_FAT16_def)








lemma fat_subtype_none:
  assumes "65524 < nclst" "MAX_FAT32 cf < nclst"
  shows "fat_subtype cf nclst = 0"
  using assms by (auto simp: fat_subtype_cases word_le_nat_alt word_less_nat_alt split: if_splits)
















section \<open>Numbered short names at registration\<close>














































lemma lfn_hash_demo: "lfn_hash 6 lfn_demo = 0x185D"
  by code_simp








section \<open>Opening a read-only object for writing\<close>






text \<open>
  With one of the create flags the branch for an object that exists tests the
  read-only and the directory attribute together and answers \<^verbatim>\<open>FR_IS_DIR\<close> for both,
  so for a read-only file too.
\<close>

lemma open_mask_create:
  assumes "mode AND (FA_CREATE_ALWAYS OR FA_OPEN_ALWAYS OR FA_CREATE_NEW) \<noteq> 0"
  shows "open_acc (mode AND (FA_READ OR FA_WRITE OR FA_CREATE_ALWAYS OR FA_CREATE_NEW
                 OR FA_OPEN_ALWAYS OR FA_OPEN_APPEND OR FA_SEEKEND)) = 1"
    and "(mode AND (FA_READ OR FA_WRITE OR FA_CREATE_ALWAYS OR FA_CREATE_NEW
                 OR FA_OPEN_ALWAYS OR FA_OPEN_APPEND OR FA_SEEKEND))
           AND (FA_CREATE_ALWAYS OR FA_OPEN_ALWAYS OR FA_CREATE_NEW) \<noteq> 0"
proof -
  define mode' where "mode' = mode AND (FA_READ OR FA_WRITE OR FA_CREATE_ALWAYS OR FA_CREATE_NEW
                 OR FA_OPEN_ALWAYS OR FA_OPEN_APPEND OR FA_SEEKEND)"
  have "mode' AND (FA_CREATE_ALWAYS OR FA_OPEN_ALWAYS OR FA_CREATE_NEW)
      = mode AND (FA_CREATE_ALWAYS OR FA_OPEN_ALWAYS OR FA_CREATE_NEW)"
    unfolding mode'_def by (simp add: flag_defs and.assoc)
  with assms have c: "mode' AND (FA_CREATE_ALWAYS OR FA_OPEN_ALWAYS OR FA_CREATE_NEW) \<noteq> 0"
    by simp
  have "(mode' AND NOT FA_READ) AND (FA_CREATE_ALWAYS OR FA_OPEN_ALWAYS OR FA_CREATE_NEW)
      = mode' AND (FA_CREATE_ALWAYS OR FA_OPEN_ALWAYS OR FA_CREATE_NEW)"
    by (simp add: flag_defs and.assoc)
  with c have "mode' AND NOT FA_READ \<noteq> 0" by auto
  with c show "open_acc (mode AND (FA_READ OR FA_WRITE OR FA_CREATE_ALWAYS OR FA_CREATE_NEW
                 OR FA_OPEN_ALWAYS OR FA_OPEN_APPEND OR FA_SEEKEND)) = 1"
    and "(mode AND (FA_READ OR FA_WRITE OR FA_CREATE_ALWAYS OR FA_CREATE_NEW
                 OR FA_OPEN_ALWAYS OR FA_OPEN_APPEND OR FA_SEEKEND))
           AND (FA_CREATE_ALWAYS OR FA_OPEN_ALWAYS OR FA_CREATE_NEW) \<noteq> 0"
    by (simp_all add: open_acc_def mode'_def)
qed

lemma f_open_create_read_only:
  assumes m: "mount fs0 d0 = (FR_OK, fs1, d1)"
    and f: "follow fs1 d1 = (FR_OK, dj, dir, fs, d)"
    and c: "mode AND (FA_CREATE_ALWAYS OR FA_OPEN_ALWAYS OR FA_CREATE_NEW) \<noteq> 0"
    and "attr (obj dj) AND AM_RDO \<noteq> 0" "attr (obj dj) AND AM_DIR = 0"
    and "fn dj ! NSFLAG AND NS_NONAME = 0" "chk_share Files dj 1 = FR_OK"
  shows "f_open Files fs0 d0 (Some fp) mode mount follow reg alloc fsp =
           Some (FR_IS_DIR, Some (fp\<lparr>obj := (obj fp)\<lparr>obj_fs := 0\<rparr>\<rparr>),
                 snd (dec_share Files (lockid (obj fp))), fs, d)"
proof -
  define mode' where "mode' = mode AND (FA_READ OR FA_WRITE OR FA_CREATE_ALWAYS OR FA_CREATE_NEW
                 OR FA_OPEN_ALWAYS OR FA_OPEN_APPEND OR FA_SEEKEND)"
  note o = open_mask_create [OF c, folded mode'_def]
  have k: "f_open_check Files dj mode' FR_OK = FR_OK"
    using assms(6,7) o(1) by (simp add: f_open_check_def)
  have "attr (obj dj) AND (AM_RDO OR AM_DIR) \<noteq> 0"
  proof
    assume "attr (obj dj) AND (AM_RDO OR AM_DIR) = 0"
    then have "(attr (obj dj) AND (AM_RDO OR AM_DIR)) AND AM_RDO = 0" by simp
    then show False using assms(4) by (simp add: flag_defs and.assoc)
  qed
  then have "f_open_create Files reg FR_OK mode' dj dir fs d
      = Some (FR_IS_DIR, mode', dj, dir, fs, d)"
    by (simp add: f_open_create_def)
  then show ?thesis
    using o(2) unfolding f_open_def mode'_def [symmetric]
    by (simp add: m f k Let_def)
qed








end
